theory Spec2Isabelle
  imports Main "HOL-Library.Sublist"
begin

section \<open>Python values used by the handlers\<close>

text \<open>
  Exceptions are values. \<open>HTTPException\<close> carries the status code and the detail text;
  \<open>SqliteError\<close> stands for any exception of the sqlite3 driver, \<open>ServiceError\<close> for
  any runtime failure inside the classifier or the retrieval chain.
\<close>

datatype exn =
    ValueError
  | IndexError
  | AttributeError
  | SqliteError
  | ServiceError
  | HTTPException nat string

text \<open>
  A string is a list of code points below 256. \<open>str.lower\<close> is given on the letters
  A to Z, which is all the handlers compare against.
\<close>

definition lower_char :: "char \<Rightarrow> char" where
  "lower_char c =
     (case map_of (zip ''ABCDEFGHIJKLMNOPQRSTUVWXYZ'' ''abcdefghijklmnopqrstuvwxyz'') c of
        Some l \<Rightarrow> l
      | None \<Rightarrow> c)"

definition lower :: "string \<Rightarrow> string" where
  "lower s = map lower_char s"

text \<open>
  \<open>int(s)\<close> on a string. The whitespace skipped at both ends is what the integer
  parser skips, which is not what \<open>str.strip\<close> removes: tab, line feed, vertical tab,
  form feed, carriage return and space, and the two further whitespace code points
  below 256, next line (133) and no-break space (160), which the parser first turns
  into spaces; the separators 28 to 31 are not skipped. One sign is allowed, the rest
  is one or more decimal digits with single underscores allowed between digits, and no
  more than 4300 digits, the interpreter's limit for the conversion. Anything else
  raises \<open>ValueError\<close>.
\<close>

definition is_space :: "char \<Rightarrow> bool" where
  "is_space c = ((of_char c :: nat) \<in> set [9, 10, 11, 12, 13, 32, 133, 160])"

definition strip :: "string \<Rightarrow> string" where
  "strip s = rev (dropWhile is_space (rev (dropWhile is_space s)))"

definition is_digit :: "char \<Rightarrow> bool" where
  "is_digit c = (48 \<le> (of_char c :: nat) \<and> (of_char c :: nat) \<le> 57)"

fun digits_ok :: "string \<Rightarrow> bool" where
  "digits_ok [] = False"
| "digits_ok [c] = is_digit c"
| "digits_ok (c # d # cs) =
     (is_digit c \<and> (if d = CHR ''_'' then digits_ok cs else digits_ok (d # cs)))"

definition digits_val :: "string \<Rightarrow> int" where
  "digits_val s =
     foldl (\<lambda>acc c. if c = CHR ''_'' then acc else 10 * acc + (int (of_char c) - 48)) 0 s"

definition max_str_digits :: nat where
  "max_str_digits = 4300"

definition int_literal :: "string \<Rightarrow> exn + int" where
  "int_literal ds =
     (if digits_ok ds \<and> length (filter is_digit ds) \<le> max_str_digits then Inr (digits_val ds)
      else Inl ValueError)"

definition py_int :: "string \<Rightarrow> exn + int" where
  "py_int s =
     (case strip s of
        [] \<Rightarrow> Inl ValueError
      | c # cs \<Rightarrow>
          if c = CHR ''-'' then (case int_literal cs of Inl e \<Rightarrow> Inl e | Inr n \<Rightarrow> Inr (- n))
          else if c = CHR ''+'' then int_literal cs
          else int_literal (c # cs))"

text \<open>\<open>xs[i]\<close>: a negative index counts from the end, out of range raises.\<close>

definition py_index :: "'a list \<Rightarrow> int \<Rightarrow> exn + 'a" where
  "py_index xs i =
     (if 0 \<le> i \<and> i < int (length xs) then Inr (xs ! nat i)
      else if i < 0 \<and> - int (length xs) \<le> i then Inr (xs ! nat (int (length xs) + i))
      else Inl IndexError)"

text \<open>\<open>sep.join(xs)\<close>.\<close>

fun join :: "string \<Rightarrow> string list \<Rightarrow> string" where
  "join sep [] = []"
| "join sep [x] = x"
| "join sep (x # y # ys) = x @ sep @ join sep (y # ys)"

section \<open>The users table (database.py)\<close>

text \<open>
  One row per username. \<open>UPDATE ... WHERE username = ?\<close> changes the row when there is
  one and nothing otherwise. A connection that cannot be opened or a statement that
  fails raises inside the handler; \<open>online\<close> says whether the database answers during
  the request.
\<close>

record user_row =
  u_password :: string
  u_date :: string
  u_firstname :: string
  u_lastname :: string
  u_email :: string
  u_disorder :: string
  u_severity :: string
  u_history :: "string option"

record database =
  users :: "string \<rightharpoonup> user_row"
  online :: bool

definition update_disorder :: "database \<Rightarrow> string \<Rightarrow> string \<Rightarrow> exn + database" where
  "update_disorder d username v =
     (if \<not> online d then Inl SqliteError
      else case users d username of
             None \<Rightarrow> Inr d
           | Some r \<Rightarrow> Inr (d\<lparr>users := (users d)(username \<mapsto> r\<lparr>u_disorder := v\<rparr>)\<rparr>))"

definition update_severity :: "database \<Rightarrow> string \<Rightarrow> string \<Rightarrow> exn + database" where
  "update_severity d username v =
     (if \<not> online d then Inl SqliteError
      else case users d username of
             None \<Rightarrow> Inr d
           | Some r \<Rightarrow> Inr (d\<lparr>users := (users d)(username \<mapsto> r\<lparr>u_severity := v\<rparr>)\<rparr>))"

definition update_history :: "database \<Rightarrow> string \<Rightarrow> string \<Rightarrow> exn + database" where
  "update_history d username v =
     (if \<not> online d then Inl SqliteError
      else case users d username of
             None \<Rightarrow> Inr d
           | Some r \<Rightarrow> Inr (d\<lparr>users := (users d)(username \<mapsto> r\<lparr>u_history := Some v\<rparr>)\<rparr>))"

text \<open>
  \<open>SELECT history ...; result = fetchone(); result[0] if result and result[0] else ""\<close>:
  no row, a NULL column and an empty string all read as the empty string.
\<close>

definition select_history :: "database \<Rightarrow> string \<Rightarrow> exn + string" where
  "select_history d username =
     (if \<not> online d then Inl SqliteError
      else case users d username of
             None \<Rightarrow> Inr []
           | Some r \<Rightarrow> (case u_history r of None \<Rightarrow> Inr [] | Some h \<Rightarrow> Inr h))"

section \<open>The /get handler (main.py)\<close>

subsection \<open>Session state and fixed replies\<close>

record session =
  InDiagnosis :: bool
  InCounselor :: bool
  total :: int
  userScore :: int
  userText_diagnosis :: string
  predicted_class :: "string option"

text \<open>The classifier \<open>predict_disorder\<close> is an external model: it returns a label or raises.\<close>

type_synonym classifier = "string \<Rightarrow> exn + string"

text \<open>
  The chat-history store of ml_models.py maps a session id to the contents of its
  messages. The retrieval chain is external: given the input, the session id and the
  store it returns the store it leaves and the answer, or raises.
\<close>

type_synonym store = "string \<rightharpoonup> string list"

type_synonym counsellor = "string \<Rightarrow> string \<Rightarrow> store \<Rightarrow> store \<times> (exn + string)"

definition thank_you :: string where
  "thank_you = ''Thank you for using our website. Refresh the page for another diagnosis''"

definition required_format :: string where
  "required_format = ''Please Provide Answers in Required Format !''"

definition required_format_ptsd :: string where
  "required_format_ptsd = ''Please Provide Answer in Required Format''"

definition failure_message :: string where
  "failure_message =
     ''I'm sorry, I'm having trouble responding right now. Please try again later.''"

definition visit_page :: string where
  "visit_page = ''Please visit the diagnosis or counseling page to start a session.''"

definition ptsd_no_trauma :: string where
  "ptsd_no_trauma = ''PTSDs are generally caused due to a traumatic event. I would recommend you to consult our PTSD Mental Health Counsellor or Consider taking Professional Help.''"

definition likert_tokens :: "string list" where
  "likert_tokens = [''0'', ''1'', ''2'', ''3'']"

definition yes_tokens :: "string list" where
  "yes_tokens = [''yes'', ''yES'', ''yEs'', ''yeS'', ''YeS'', ''YEs'']"

definition no_tokens :: "string list" where
  "no_tokens = [''no'', ''nO'']"

subsection \<open>Severity tables of the /get handler: (severity, message)\<close>

definition anxiety_severity :: "int \<Rightarrow> string \<times> string" where
  "anxiety_severity sc =
     (if 0 \<le> sc \<and> sc \<le> 4 then
        (''Minimal'', ''The Severity of your Anxiety Disorder is Minimal.<br>You can refer to professional help or You can also try our Anxiety Health Counsellor'')
      else if 5 \<le> sc \<and> sc \<le> 9 then
        (''Mild'', ''The Severity of your Anxiety Disorder is Mild.<br>You can refer to professional help or You can also try our Anxiety Health Counsellor'')
      else if 10 \<le> sc \<and> sc \<le> 14 then
        (''Moderate'', ''The Severity of your Anxiety Disorder is Moderate.<br>I recommend taking professional help. Along with that You can also try our Anxiety Health Counsellor'')
      else
        (''Severe'', ''The Severity of your Anxiety Disorder is Severe.<br>You can try our Anxiety Health Counsellor, but I strongly recommend taking professional help''))"

definition depression_severity :: "int \<Rightarrow> string \<times> string" where
  "depression_severity sc =
     (if 0 \<le> sc \<and> sc \<le> 4 then
        (''Minimal'', ''The Severity of your Depression Disorder is Minimal.<br>You can refer to professional help or You can also try our Depression Health Counsellor'')
      else if 5 \<le> sc \<and> sc \<le> 9 then
        (''Mild'', ''The Severity of your Depression Disorder is Mild.<br>You can refer to professional help or You can also try our Depression Health Counsellor'')
      else if 10 \<le> sc \<and> sc \<le> 14 then
        (''Moderate'', ''The Severity of your Depression Disorder is Moderate.<br>I recommend taking professional help. Along with that You can also try our Depression Health Counsellor'')
      else if 15 \<le> sc \<and> sc \<le> 19 then
        (''Moderately Severe'', ''The Severity of your Depression Disorder is Moderately Severe.<br>You can try our Depression Health Counsellor, but I strongly recommend taking professional help'')
      else
        (''Severe'', ''The Severity of your Depression Disorder is Quite Severe.<br>I strongly recommend taking professional help however you can also try our Depression Health Counsellor''))"

definition ptsd_severity :: "int \<Rightarrow> string \<times> string" where
  "ptsd_severity sc =
     (if 0 \<le> sc \<and> sc < 3 then
        (''Mild'', ''The Severity of your PTSD Disorder is Mild.<br>You can refer to professional help or You can also try our PTSD Health Counsellor'')
      else
        (''Moderate/Severe'', ''The Severity of your PTSD Disorder is Moderate/Severe.<br>You can try our PTSD Health Counsellor, but I strongly recommend taking professional help''))"

definition addiction_severity :: "int \<Rightarrow> string \<times> string" where
  "addiction_severity sc =
     (if 0 \<le> sc \<and> sc \<le> 6 then
        (''Mild'', ''The Severity of your Addiction Disorder is Mild.<br>You can refer to professional help or You can also try our Addiction Health Counsellor'')
      else if 7 \<le> sc \<and> sc \<le> 15 then
        (''Moderate'', ''The Severity of your Addiction Disorder is Moderate.<br>You can refer to professional help or You can also try our Addiction Health Counsellor'')
      else if 16 \<le> sc \<and> sc \<le> 24 then
        (''Mildly Severe'', ''The Severity of your Addiction Disorder is Mildly Severe.<br>I recommend taking professional help. Along with that You can also try our Addiction Health Counsellor'')
      else
        (''Severe'', ''The Severity of your Addiction Disorder is Severe.<br>You can try our Addiction Health Counsellor, but I strongly recommend taking professional help''))"

subsection \<open>Questionnaire steps\<close>

text \<open>
  The session dictionary is mutated in place, so what a step wrote before an exception
  stays written: every step returns the session and the database it leaves, with the
  reply or the exception raised.

  \<open>score_and_next\<close> is \<open>userScore += int(msg); total += 1; return q\<close>.
  \<open>finish\<close> is the tail of a last item: the severity of the score is looked up,
  written to the user's row and its message returned.
\<close>

type_synonym step_result = "session \<times> database \<times> (exn + string)"

definition score_and_next :: "session \<Rightarrow> string \<Rightarrow> database \<Rightarrow> string \<Rightarrow> step_result" where
  "score_and_next s msg d q =
     (case py_int msg of
        Inl e \<Rightarrow> (s, d, Inl e)
      | Inr n \<Rightarrow> (s\<lparr>userScore := userScore s + n, total := total s + 1\<rparr>, d, Inr q))"

definition finish :: "string \<Rightarrow> session \<Rightarrow> database \<Rightarrow> (int \<Rightarrow> string \<times> string) \<Rightarrow> step_result" where
  "finish username s d table =
     (case update_severity d username (fst (table (userScore s))) of
        Inl e \<Rightarrow> (s, d, Inl e)
      | Inr d' \<Rightarrow> (s, d', Inr (snd (table (userScore s)))))"

definition score_and_finish ::
  "string \<Rightarrow> session \<Rightarrow> string \<Rightarrow> database \<Rightarrow> (int \<Rightarrow> string \<times> string) \<Rightarrow> step_result" where
  "score_and_finish username s msg d table =
     (case py_int msg of
        Inl e \<Rightarrow> (s, d, Inl e)
      | Inr n \<Rightarrow> finish username (s\<lparr>userScore := userScore s + n, total := - 1\<rparr>) d table)"

definition anxiety_questionnaire :: "string \<Rightarrow> string \<Rightarrow> session \<Rightarrow> database \<Rightarrow> step_result" where
  "anxiety_questionnaire username msg s d =
     (if msg \<in> set likert_tokens then
        (if total s = 4 then score_and_next s msg d ''Not being able to stop or control worrying''
         else if total s = 5 then score_and_next s msg d ''Worrying too much about different things''
         else if total s = 6 then score_and_next s msg d ''Trouble relaxing''
         else if total s = 7 then score_and_next s msg d ''Being so restless that it is hard to sit still''
         else if total s = 8 then score_and_next s msg d ''Becoming easily annoyed or irritable''
         else if total s = 9 then score_and_next s msg d ''Feeling afraid, as if something awful might happen''
         else if total s = 10 then score_and_finish username s msg d anxiety_severity
         else (s, d, Inr thank_you))
      else (s, d, Inr required_format))"

definition depression_questionnaire :: "string \<Rightarrow> string \<Rightarrow> session \<Rightarrow> database \<Rightarrow> step_result" where
  "depression_questionnaire username msg s d =
     (if msg \<in> set likert_tokens then
        (if total s = 4 then score_and_next s msg d ''Feeling down, depressed, or hopeless''
         else if total s = 5 then score_and_next s msg d ''Trouble falling or staying asleep, or sleeping too much''
         else if total s = 6 then score_and_next s msg d ''Feeling tired or having little energy''
         else if total s = 7 then score_and_next s msg d ''Poor appetite or overeating''
         else if total s = 8 then score_and_next s msg d ''Feeling bad about yourself or that you are a failure or have let yourself or your family down''
         else if total s = 9 then score_and_next s msg d ''Trouble concentrating on things, such as reading the newspaper or watching television''
         else if total s = 10 then score_and_next s msg d ''Moving or speaking so slowly that other people could not have noticed. Or the opposite being so figety or restless that you have been moving around a lot more than usual''
         else if total s = 11 then score_and_next s msg d ''Thoughts that you would be better off dead, or of hurting yourself''
         else if total s = 12 then score_and_finish username s msg d depression_severity
         else (s, d, Inr thank_you))
      else (s, d, Inr required_format))"

definition addiction_questionnaire :: "string \<Rightarrow> string \<Rightarrow> session \<Rightarrow> database \<Rightarrow> step_result" where
  "addiction_questionnaire username msg s d =
     (if msg \<in> set likert_tokens then
        (if total s = 4 then score_and_next s msg d ''How often do you find it difficult to control or stop using the substance or engaging in the behavior?''
         else if total s = 5 then score_and_next s msg d ''How often do you need to use more of the substance or engage more in the behavior to achieve the same effect?''
         else if total s = 6 then score_and_next s msg d ''How often do you experience physical or emotional withdrawal symptoms when you try to stop using the substance or engaging in the behavior?''
         else if total s = 7 then score_and_next s msg d ''How often do you neglect your responsibilities at work, school, or home due to your use of the substance or engagement in the behavior?''
         else if total s = 8 then score_and_next s msg d ''How often do you continue to use the substance or engage in the behavior despite knowing it causes problems in your life?''
         else if total s = 9 then score_and_next s msg d ''How often do you spend a lot of time obtaining, using, or recovering from the substance or behavior?''
         else if total s = 10 then score_and_next s msg d ''How often do you lose interest in other activities or hobbies because of your use of the substance or engagement in the behavior?''
         else if total s = 11 then score_and_next s msg d ''How often do you continue to use the substance or engage in the behavior in situations where it is physically dangerous (e.g., driving, operating machinery)?''
         else if total s = 12 then score_and_next s msg d ''How often do you feel guilty or ashamed about your use of the substance or engagement in the behavior?''
         else if total s = 13 then score_and_finish username s msg d addiction_severity
         else (s, d, Inr thank_you))
      else (s, d, Inr required_format))"

text \<open>
  A PTSD item after the first: "yes" scores one point, "no" scores nothing, both go on
  to the question \<open>q\<close>; anything else asks again.
\<close>

definition ptsd_item :: "session \<Rightarrow> string \<Rightarrow> database \<Rightarrow> string \<Rightarrow> step_result" where
  "ptsd_item s msg d q =
     (if lower msg \<in> set yes_tokens then
        (s\<lparr>userScore := userScore s + 1, total := total s + 1\<rparr>, d, Inr q)
      else if lower msg \<in> set no_tokens then (s\<lparr>total := total s + 1\<rparr>, d, Inr q)
      else (s, d, Inr required_format_ptsd))"

definition ptsd_questionnaire :: "string \<Rightarrow> string \<Rightarrow> session \<Rightarrow> database \<Rightarrow> step_result" where
  "ptsd_questionnaire username msg s d =
     (if total s = 4 then
        (if lower msg \<in> set no_tokens then
           (case update_severity d username ''Minimal'' of
              Inl e \<Rightarrow> (s\<lparr>total := 15\<rparr>, d, Inl e)
            | Inr d' \<Rightarrow> (s\<lparr>total := 15\<rparr>, d', Inr ptsd_no_trauma))
         else if lower msg \<in> set yes_tokens then
           (s\<lparr>total := total s + 1\<rparr>, d, Inr ''Had nightmares about it or thought about it when you did not want to?'')
         else (s, d, Inr required_format_ptsd))
      else if total s = 5 then ptsd_item s msg d ''Tried hard not to think about it or went out of your way to avoid situations that reminded you of it?''
      else if total s = 6 then ptsd_item s msg d ''Were constantly on guard, watchful or easily startled?''
      else if total s = 7 then ptsd_item s msg d ''Felt numb or detached from others, activities, or your surroundings?''
      else if total s = 8 then ptsd_item s msg d ''Felt guilty or unable to stop blaming yourself or others for the event or any problems the event may have caused''
      else if total s = 9 then
        (if lower msg \<in> set yes_tokens then
           finish username (s\<lparr>userScore := userScore s + 1, total := - 1\<rparr>) d ptsd_severity
         else if lower msg \<in> set no_tokens then
           finish username (s\<lparr>total := - 1\<rparr>) d ptsd_severity
         else (s, d, Inr required_format_ptsd))
      else (s, d, Inr thank_you))"

subsection \<open>The handler body\<close>

definition likert_scale :: string where
  "likert_scale = ''Now could please answer a few symptoms related questions, to help me diagnose the severity of you disorder? <br> Answer 0 : For Not At All <br> Answer 1: If several days <br> Answer 2: If More than half the days <br> Answer 3: If Nearly every day <br> <br>''"

definition first_question :: "string \<Rightarrow> string option" where
  "first_question disorder =
     (if disorder = ''Anxiety'' then
        Some (''You have: '' @ disorder @ ''<br>'' @ likert_scale @ ''  Feeling nervous, anxious, or on edge ? <br><br> NOTE: Please provide Numerical Input !'')
      else if disorder = ''PTSD'' then
        Some (''You have: '' @ disorder @ ''<br>'' @ ''Now could please answer a few symptoms related questions, to help me diagnose the severity of you disorder? <br> NOTE: Please Answer in 'yes' or 'no' ! <br><br> Sometimes things happen to people that are unusually or especially frightening, horrible, or traumatic. <br> For example: <br> - A serious accident or fire <br> - A physical or sexual assualt or abuse <br> - Seeing someone getting killed or get seriously injured <br> - Having a loved one die through homicide or sucide <br><br> Have you ever experienced this kind of event? '')
      else if disorder = ''Depression'' then
        Some (''You have: '' @ disorder @ ''<br>'' @ likert_scale @ ''Little interest or pleasure in doing things ? <br><br> NOTE: Please provide Numerical Input !'')
      else if disorder = ''Addiction'' then
        Some (''You have: '' @ disorder @ ''<br>'' @ ''Now could please answer a few symptoms related questions, to help me diagnose the severity of you disorder? <br> Answer 0 : For Not At All <br> Answer 1: For Sometimes <br> Answer 2: For Often <br> Answer 3: For Always <br> <br>  How often do you have strong urges or cravings to use the substance or engage in the behavior? <br><br> NOTE: Please provide Numerical input !'')
      else None)"

text \<open>
  The third message: the counter and the text are written first, then the classifier is
  called on the text, its label stored in the session and in the user's row. A label
  that is none of the four leaves the chain of branches and gets the closing reply.
  The second component is the list of arguments the classifier was called with.
\<close>

definition classify_step ::
  "classifier \<Rightarrow> string \<Rightarrow> string \<Rightarrow> session \<Rightarrow> database \<Rightarrow> step_result \<times> string list" where
  "classify_step P username msg s d =
     (let s1 = s\<lparr>total := total s + 1, userText_diagnosis := userText_diagnosis s @ '' '' @ msg\<rparr>;
          text = userText_diagnosis s1
      in case P text of
           Inl e \<Rightarrow> ((s1, d, Inl e), [text])
         | Inr disorder \<Rightarrow>
             (let s2 = s1\<lparr>predicted_class := Some disorder\<rparr>
              in case update_disorder d username disorder of
                   Inl e \<Rightarrow> ((s2, d, Inl e), [text])
                 | Inr d' \<Rightarrow>
                     (case first_question disorder of
                        Some q \<Rightarrow> ((s2, d', Inr q), [text])
                      | None \<Rightarrow> ((s2, d', Inr thank_you), [text]))))"

definition diagnosis_workflow ::
  "classifier \<Rightarrow> string \<Rightarrow> string \<Rightarrow> session \<Rightarrow> database \<Rightarrow> step_result \<times> string list" where
  "diagnosis_workflow P username msg s d =
     (if total s = 1 then
        ((s\<lparr>total := total s + 1, userText_diagnosis := userText_diagnosis s @ msg\<rparr>, d,
          Inr ''Can you share any recent events or experiences that might have triggered these feelings or symptoms?''), [])
      else if total s = 2 then
        ((s\<lparr>total := total s + 1, userText_diagnosis := userText_diagnosis s @ '' '' @ msg\<rparr>, d,
          Inr ''Have you experienced any significant traumas in the past, or do you have any habits or behaviors that you think might be affecting your mental health?''), [])
      else if total s = 3 then classify_step P username msg s d
      else if total s \<ge> 4 then
        (if predicted_class s = Some ''Anxiety'' then (anxiety_questionnaire username msg s d, [])
         else if predicted_class s = Some ''Depression'' then (depression_questionnaire username msg s d, [])
         else if predicted_class s = Some ''PTSD'' then (ptsd_questionnaire username msg s d, [])
         else if predicted_class s = Some ''Addiction'' then (addiction_questionnaire username msg s d, [])
         else ((s, d, Inr thank_you), []))
      else ((s, d, Inr thank_you), []))"

text \<open>
  The counselling branch: the chain answers, then the history column is overwritten
  with the messages of the chat-history store joined by \<open>" | "\<close> when the store has
  the session, and extended by one entry otherwise.
\<close>

definition counseling_workflow ::
  "counsellor \<Rightarrow> string \<Rightarrow> string \<Rightarrow> database \<Rightarrow> store \<Rightarrow> database \<times> store \<times> (exn + string)" where
  "counseling_workflow L username msg d st =
     (let session_id = ''counsel_'' @ username in
      case L msg session_id st of
        (st', Inl e) \<Rightarrow> (d, st', Inl e)
      | (st', Inr ai_response) \<Rightarrow>
          (case st' session_id of
             Some messages \<Rightarrow>
               (case update_history d username (join '' | '' messages) of
                  Inl e \<Rightarrow> (d, st', Inl e)
                | Inr d' \<Rightarrow> (d', st', Inr ai_response))
           | None \<Rightarrow>
               (case select_history d username of
                  Inl e \<Rightarrow> (d, st', Inl e)
                | Inr current_history \<Rightarrow>
                    (let new_entry = ''User: '' @ msg @ '' | AI: '' @ ai_response;
                         history = (if current_history \<noteq> [] then current_history @ '' | '' @ new_entry
                                    else new_entry)
                     in case update_history d username history of
                          Inl e \<Rightarrow> (d, st', Inl e)
                        | Inr d' \<Rightarrow> (d', st', Inr ai_response)))))"

text \<open>
  What one request does to the state it touches, and the reply or the exception the
  body of the \<open>try\<close> block ends with.
\<close>

record outcome =
  o_session :: session
  o_db :: database
  o_store :: store
  o_calls :: "string list"
  o_result :: "exn + string"

definition get_response_body ::
  "classifier \<Rightarrow> counsellor \<Rightarrow> string \<Rightarrow> string \<Rightarrow> session \<Rightarrow> database \<Rightarrow> store \<Rightarrow> outcome" where
  "get_response_body P L username msg s d st =
     (if InDiagnosis s \<and> \<not> InCounselor s then
        (case diagnosis_workflow P username msg s d of
           ((s', d', r), calls) \<Rightarrow>
             \<lparr>o_session = s', o_db = d', o_store = st, o_calls = calls, o_result = r\<rparr>)
      else if \<not> InDiagnosis s \<and> InCounselor s then
        (case counseling_workflow L username msg d st of
           (d', st', r) \<Rightarrow>
             \<lparr>o_session = s, o_db = d', o_store = st', o_calls = [], o_result = r\<rparr>)
      else \<lparr>o_session = s, o_db = d, o_store = st, o_calls = [], o_result = Inr visit_page\<rparr>)"

text \<open>\<open>except Exception\<close>: whatever the body raised, the caller gets the fixed reply.\<close>

definition reply_of :: "exn + string \<Rightarrow> string" where
  "reply_of r = (case r of Inl e \<Rightarrow> failure_message | Inr m \<Rightarrow> m)"

subsection \<open>The handler on the process state\<close>

record world =
  user_sessions :: "string \<rightharpoonup> session"
  db :: database
  chat_store :: store
  predict_log :: "string list"

definition new_session :: session where
  "new_session = \<lparr>InDiagnosis = False, InCounselor = False, total = 0, userScore = 0,
                   userText_diagnosis = [], predicted_class = None\<rparr>"

definition get_response ::
  "classifier \<Rightarrow> counsellor \<Rightarrow> string \<Rightarrow> string \<Rightarrow> world \<Rightarrow> world \<times> string" where
  "get_response P L username msg w =
     (let s = (case user_sessions w username of None \<Rightarrow> new_session | Some s \<Rightarrow> s);
          out = get_response_body P L username msg s (db w) (chat_store w)
      in (\<lparr>user_sessions = (user_sessions w)(username \<mapsto> o_session out),
           db = o_db out,
           chat_store = o_store out,
           predict_log = predict_log w @ o_calls out\<rparr>,
          reply_of (o_result out)))"

text \<open>The pages /diagnosis and /counsel of main.py reset the user's session.\<close>

definition diagnosis_page_session :: session where
  "diagnosis_page_session = \<lparr>InDiagnosis = True, InCounselor = False, total = 1, userScore = 0,
                              userText_diagnosis = '' '', predicted_class = None\<rparr>"

definition diagnosis_page :: "string \<Rightarrow> world \<Rightarrow> world" where
  "diagnosis_page username w = w\<lparr>user_sessions := (user_sessions w)(username \<mapsto> diagnosis_page_session)\<rparr>"

text \<open>A conversation: the messages of one user, handled in order.\<close>

fun run_get :: "classifier \<Rightarrow> counsellor \<Rightarrow> string \<Rightarrow> string list \<Rightarrow> world \<Rightarrow> world \<times> string list" where
  "run_get P L username [] w = (w, [])"
| "run_get P L username (m # ms) w =
     (case get_response P L username m w of
        (w', r) \<Rightarrow> (case run_get P L username ms w' of (w'', rs) \<Rightarrow> (w'', r # rs)))"

section \<open>The /diagnosis/chat handler (diagnosis.py)\<close>

record diag_session =
  step :: int
  user_input :: string
  score :: int
  disorder :: "string option"

record DiagnosisRequest =
  req_user_input :: string
  req_step :: int

record DiagnosisResponse =
  message :: string
  r_disorder :: "string option"
  r_severity :: "string option"
  completed :: bool

definition calculate_anxiety_severity :: "int \<Rightarrow> string" where
  "calculate_anxiety_severity sc =
     (if sc \<le> 4 then ''Minimal''
      else if sc \<le> 9 then ''Mild''
      else if sc \<le> 14 then ''Moderate''
      else ''Severe'')"

definition save_severity :: "database \<Rightarrow> string \<Rightarrow> string \<Rightarrow> exn + database" where
  "save_severity d username severity = update_severity d username severity"

definition anxiety_questions :: "string list" where
  "anxiety_questions =
     [''Not being able to stop or control worrying'',
      ''Worrying too much about different things'',
      ''Trouble relaxing'',
      ''Being so restless that it is hard to sit still'',
      ''Becoming easily annoyed or irritable'',
      ''Feeling afraid, as if something awful might happen'']"

definition ptsd_questions :: "string list" where
  "ptsd_questions =
     [''Tried hard not to think about it or went out of your way to avoid situations that reminded you of it?'',
      ''Were constantly on guard, watchful or easily startled?'',
      ''Felt numb or detached from others, activities, or your surroundings?'',
      ''Felt guilty or unable to stop blaming yourself or others?'']"

type_synonym diag_result = "diag_session \<times> database \<times> (exn + DiagnosisResponse)"

text \<open>
  \<open>session["step"] += 1; session["score"] = score\<close> come before the response is built,
  so they stay when indexing the question list raises.
\<close>

definition ask_next :: "diag_session \<Rightarrow> database \<Rightarrow> int \<Rightarrow> string list \<Rightarrow> int \<Rightarrow> diag_result" where
  "ask_next s d sc questions i =
     (let s' = s\<lparr>step := step s + 1, score := sc\<rparr>
      in case py_index questions i of
           Inl e \<Rightarrow> (s', d, Inl e)
         | Inr q \<Rightarrow> (s', d, Inr \<lparr>message = q, r_disorder = None, r_severity = None, completed = False\<rparr>))"

definition handle_questionnaire_response ::
  "string \<Rightarrow> string option \<Rightarrow> string \<Rightarrow> diag_session \<Rightarrow> database \<Rightarrow> diag_result" where
  "handle_questionnaire_response username dis ui s d =
     (if dis = Some ''Anxiety'' then
        (case py_int ui of
           Inl e \<Rightarrow> (s, d, Inl e)
         | Inr n \<Rightarrow>
             (let sc = score s + n in
              if step s - 3 < int (length anxiety_questions) then
                ask_next s d sc anxiety_questions (step s - 4)
              else
                (let severity = calculate_anxiety_severity sc; s' = s\<lparr>step := - 1\<rparr>
                 in case update_severity d username severity of
                      Inl e \<Rightarrow> (s', d, Inl e)
                    | Inr d' \<Rightarrow>
                        (s', d', Inr \<lparr>message = ''The severity of your Anxiety Disorder is '' @ severity @ ''.'',
                                      r_disorder = dis, r_severity = Some severity, completed = True\<rparr>))))
      else if dis = Some ''PTSD'' then
        (if step s = 4 then
           (if lower ui \<in> set [''no'', ''n''] then
              (let s' = s\<lparr>step := - 1\<rparr>
               in case save_severity d username ''Minimal'' of
                    Inl e \<Rightarrow> (s', d, Inl e)
                  | Inr d' \<Rightarrow>
                      (s', d', Inr \<lparr>message = ''PTSD requires a traumatic event. Consider consulting a counselor.'',
                                    r_disorder = dis, r_severity = Some ''Minimal'', completed = True\<rparr>))
            else
              (s\<lparr>step := 5\<rparr>, d,
               Inr \<lparr>message = ''Had nightmares about it or thought about it when you did not want to?'',
                    r_disorder = None, r_severity = None, completed = False\<rparr>))
         else
           (let sc = score s + (if lower ui \<in> set [''yes'', ''y''] then 1 else 0) in
            if step s - 4 < int (length ptsd_questions) then
              ask_next s d sc ptsd_questions (step s - 5)
            else
              (let severity = (if sc \<ge> 3 then ''Moderate/Severe'' else ''Mild''); s' = s\<lparr>step := - 1\<rparr>
               in case save_severity d username severity of
                    Inl e \<Rightarrow> (s', d, Inl e)
                  | Inr d' \<Rightarrow>
                      (s', d', Inr \<lparr>message = ''The severity of your PTSD is '' @ severity @ ''.'',
                                    r_disorder = dis, r_severity = Some severity, completed = True\<rparr>))))
      else
        (s, d, Inr \<lparr>message = ''Diagnosis completed. Please consult a healthcare professional.'',
                    r_disorder = None, r_severity = None, completed = True\<rparr>))"

definition first_question_chat :: "string \<Rightarrow> DiagnosisResponse option" where
  "first_question_chat dis =
     (if dis = ''Anxiety'' then
        Some \<lparr>message = ''You have: '' @ dis @ ''. Now could you answer a few symptoms related questions to help diagnose the severity? Answer 0: Not at all, 1: Several days, 2: More than half the days, 3: Nearly every day. Feeling nervous, anxious, or on edge?'',
              r_disorder = Some dis, r_severity = None, completed = False\<rparr>
      else if dis = ''PTSD'' then
        Some \<lparr>message = ''You have: '' @ dis @ ''. Have you ever experienced a traumatic event? (yes/no)'',
              r_disorder = Some dis, r_severity = None, completed = False\<rparr>
      else if dis = ''Depression'' then
        Some \<lparr>message = ''You have: '' @ dis @ ''. Little interest or pleasure in doing things? (0-3 scale)'',
              r_disorder = Some dis, r_severity = None, completed = False\<rparr>
      else if dis = ''Addiction'' then
        Some \<lparr>message = ''You have: '' @ dis @ ''. How often do you have strong urges or cravings? (0: Never, 1: Sometimes, 2: Often, 3: Always)'',
              r_disorder = Some dis, r_severity = None, completed = False\<rparr>
      else None)"

text \<open>
  The body of the \<open>try\<close> block of \<open>diagnosis_chat\<close>. The branch is chosen by the step
  of the request, not by the step of the session. \<open>Inr None\<close> is the function falling
  off its end (a step below 1, or a label that is none of the four).
\<close>

record diag_outcome =
  do_session :: diag_session
  do_db :: database
  do_calls :: "string list"
  do_result :: "exn + DiagnosisResponse option"

definition diagnosis_chat_body ::
  "classifier \<Rightarrow> string \<Rightarrow> DiagnosisRequest \<Rightarrow> diag_session \<Rightarrow> database \<Rightarrow> diag_outcome" where
  "diagnosis_chat_body P username rq s d =
     (if req_step rq = 1 then
        \<lparr>do_session = s\<lparr>user_input := user_input s @ req_user_input rq, step := 2\<rparr>,
         do_db = d, do_calls = [],
         do_result = Inr (Some \<lparr>message = ''Can you share any recent events or experiences that might have triggered these feelings or symptoms?'',
                                r_disorder = None, r_severity = None, completed = False\<rparr>)\<rparr>
      else if req_step rq = 2 then
        \<lparr>do_session = s\<lparr>user_input := user_input s @ '' '' @ req_user_input rq, step := 3\<rparr>,
         do_db = d, do_calls = [],
         do_result = Inr (Some \<lparr>message = ''Have you experienced any significant traumas in the past, or do you have any habits or behaviors that you think might be affecting your mental health?'',
                                r_disorder = None, r_severity = None, completed = False\<rparr>)\<rparr>
      else if req_step rq = 3 then
        (let s1 = s\<lparr>user_input := user_input s @ '' '' @ req_user_input rq\<rparr>;
             text = user_input s1
         in case P text of
              Inl e \<Rightarrow> \<lparr>do_session = s1, do_db = d, do_calls = [text], do_result = Inl e\<rparr>
            | Inr dis \<Rightarrow>
                (let s2 = s1\<lparr>disorder := Some dis, step := 4\<rparr>
                 in case update_disorder d username dis of
                      Inl e \<Rightarrow> \<lparr>do_session = s2, do_db = d, do_calls = [text], do_result = Inl e\<rparr>
                    | Inr d' \<Rightarrow>
                        \<lparr>do_session = s2, do_db = d', do_calls = [text],
                         do_result = Inr (first_question_chat dis)\<rparr>))
      else if req_step rq \<ge> 4 then
        (case handle_questionnaire_response username (disorder s) (req_user_input rq) s d of
           (s', d', r) \<Rightarrow>
             \<lparr>do_session = s', do_db = d', do_calls = [], do_result = map_sum id Some r\<rparr>)
      else \<lparr>do_session = s, do_db = d, do_calls = [], do_result = Inr None\<rparr>)"

text \<open>\<open>except Exception: raise HTTPException(status_code=500, ...)\<close>.\<close>

definition http_500 :: exn where
  "http_500 = HTTPException 500 ''Internal server error''"

definition diagnosis_chat ::
  "classifier \<Rightarrow> string \<Rightarrow> DiagnosisRequest \<Rightarrow> diag_session \<Rightarrow> database \<Rightarrow> diag_outcome" where
  "diagnosis_chat P username rq s d =
     (let out = diagnosis_chat_body P username rq s d
      in case do_result out of
           Inl e \<Rightarrow> out\<lparr>do_result := Inl http_500\<rparr>
         | Inr r \<Rightarrow> out)"

definition new_diag_session :: diag_session where
  "new_diag_session = \<lparr>step = 1, user_input = [], score = 0, disorder = None\<rparr>"

fun run_chat ::
  "classifier \<Rightarrow> string \<Rightarrow> DiagnosisRequest list \<Rightarrow> diag_session \<Rightarrow> database \<Rightarrow> diag_outcome list" where
  "run_chat P username [] s d = []"
| "run_chat P username (rq # rqs) s d =
     (let out = diagnosis_chat P username rq s d
      in out # run_chat P username rqs (do_session out) (do_db out))"

section \<open>What the specification says, and example states\<close>

text \<open>
  The Anxiety thresholds in the words of the specification: at most 4 is Minimal,
  5 to 9 is Mild, 10 to 14 is Moderate, 15 and more is Severe.
\<close>

definition anxiety_label :: "int \<Rightarrow> string" where
  "anxiety_label sc =
     (if sc \<le> 4 then ''Minimal''
      else if 5 \<le> sc \<and> sc \<le> 9 then ''Mild''
      else if 10 \<le> sc \<and> sc \<le> 14 then ''Moderate''
      else ''Severe'')"

text \<open>A registered user, a database holding her row, and services that are down.\<close>

definition alice_row :: user_row where
  "alice_row = \<lparr>u_password = ''$2b$12$hash'', u_date = ''date'', u_firstname = ''Alice'',
                u_lastname = ''Liddell'', u_email = ''NA'', u_disorder = ''Not-Diagnosed'',
                u_severity = ''Not-Diagnosed'', u_history = Some ''User: a | AI: b''\<rparr>"

definition alice_db :: database where
  "alice_db = \<lparr>users = [''alice'' \<mapsto> alice_row], online = True\<rparr>"

definition no_classifier :: classifier where
  "no_classifier text = Inl ServiceError"

definition no_counsellor :: counsellor where
  "no_counsellor msg session_id st = (st, Inl ServiceError)"

definition questionnaire_session :: "string \<Rightarrow> int \<Rightarrow> int \<Rightarrow> session" where
  "questionnaire_session label t sc =
     \<lparr>InDiagnosis = True, InCounselor = False, total = t, userScore = sc,
      userText_diagnosis = '' a b c'', predicted_class = Some label\<rparr>"

definition chat_session :: "string \<Rightarrow> int \<Rightarrow> int \<Rightarrow> diag_session" where
  "chat_session label t sc = \<lparr>step = t, user_input = ''a b c'', score = sc, disorder = Some label\<rparr>"

definition alice_world :: "session \<Rightarrow> world" where
  "alice_world s = \<lparr>user_sessions = [''alice'' \<mapsto> s], db = alice_db, chat_store = Map.empty,
                    predict_log = []\<rparr>"

text \<open>
  The lengths of the scored questionnaires as the specification gives them, the table
  the /get handler uses for each, and the sum of a list of answers.
\<close>

definition questionnaire_length :: "string \<Rightarrow> int" where
  "questionnaire_length lab =
     (if lab = ''Anxiety'' then 7 else if lab = ''Depression'' then 9
      else if lab = ''Addiction'' then 10 else 0)"

definition severity_table :: "string \<Rightarrow> int \<Rightarrow> string \<times> string" where
  "severity_table lab =
     (if lab = ''Anxiety'' then anxiety_severity
      else if lab = ''Depression'' then depression_severity
      else addiction_severity)"

fun answers_total :: "string list \<Rightarrow> int" where
  "answers_total [] = 0"
| "answers_total (a # as) = (case py_int a of Inr n \<Rightarrow> n | Inl e \<Rightarrow> 0) + answers_total as"

text \<open>The answers of a questionnaire as requests, sent with the steps 4, 5 and so on.\<close>

definition chat_answers :: "string list \<Rightarrow> DiagnosisRequest list" where
  "chat_answers as = map (\<lambda>(i, a). \<lparr>req_user_input = a, req_step = 4 + int i\<rparr>) (enumerate 0 as)"

definition is_completed :: "diag_outcome \<Rightarrow> bool" where
  "is_completed out = (case do_result out of Inr (Some r) \<Rightarrow> completed r | _ \<Rightarrow> False)"

text \<open>
  Services that answer: a classifier that gives one label to every text, and a chain
  that, as the message-history wrapper of ml_models.py does, adds the input and its
  answer to the messages of the session in the store.
\<close>

definition fixed_classifier :: "string \<Rightarrow> classifier" where
  "fixed_classifier label text = Inr label"

definition recording_counsellor :: "(string \<Rightarrow> string) \<Rightarrow> counsellor" where
  "recording_counsellor answer msg session_id st =
     (st(session_id \<mapsto> (case st session_id of None \<Rightarrow> [] | Some ms \<Rightarrow> ms) @ [msg, answer msg]),
      Inr (answer msg))"

section \<open>The /counsel/chat handler (counseling.py)\<close>

record CounselingRequest =
  creq_user_input :: string
  creq_session_id :: string

record CounselingResponse =
  c_message :: string

text \<open>
  \<open>counsel_request.session_id or f"counsel_{username}"\<close>: the session of the chat store
  is the one the request names, and the user's own only when the request names none.
\<close>

definition counsel_session_id :: "string \<Rightarrow> CounselingRequest \<Rightarrow> string" where
  "counsel_session_id username rq =
     (if creq_session_id rq \<noteq> [] then creq_session_id rq else ''counsel_'' @ username)"

record counsel_outcome =
  co_db :: database
  co_store :: store
  co_result :: "exn + CounselingResponse"

text \<open>
  The body of the \<open>try\<close> block of \<open>counsel_chat\<close>: the chain answers, the history column
  is read, the new exchange is put after it and the column written back.
\<close>

definition counsel_chat_body ::
  "counsellor \<Rightarrow> string \<Rightarrow> CounselingRequest \<Rightarrow> database \<Rightarrow> store \<Rightarrow> counsel_outcome" where
  "counsel_chat_body L username rq d st =
     (case L (creq_user_input rq) (counsel_session_id username rq) st of
        (st', Inl e) \<Rightarrow> \<lparr>co_db = d, co_store = st', co_result = Inl e\<rparr>
      | (st', Inr ai_response) \<Rightarrow>
          (case select_history d username of
             Inl e \<Rightarrow> \<lparr>co_db = d, co_store = st', co_result = Inl e\<rparr>
           | Inr current_history \<Rightarrow>
               (let new_entry = ''User: '' @ creq_user_input rq @ '' | AI: '' @ ai_response;
                    updated_history = (if current_history \<noteq> [] then current_history @ '' | '' @ new_entry
                                       else new_entry)
                in case update_history d username updated_history of
                     Inl e \<Rightarrow> \<lparr>co_db = d, co_store = st', co_result = Inl e\<rparr>
                   | Inr d' \<Rightarrow>
                       \<lparr>co_db = d', co_store = st', co_result = Inr \<lparr>c_message = ai_response\<rparr>\<rparr>)))"

definition counsel_chat ::
  "counsellor \<Rightarrow> string \<Rightarrow> CounselingRequest \<Rightarrow> database \<Rightarrow> store \<Rightarrow> counsel_outcome" where
  "counsel_chat L username rq d st =
     (let out = counsel_chat_body L username rq d st
      in case co_result out of
           Inl e \<Rightarrow> out\<lparr>co_result := Inl http_500\<rparr>
         | Inr r \<Rightarrow> out)"

text \<open>Sessions of the two pages, as the handlers of the pages leave them.\<close>

definition counsel_page_session :: session where
  "counsel_page_session = \<lparr>InDiagnosis = False, InCounselor = True, total = 0, userScore = 0,
                            userText_diagnosis = [], predicted_class = None\<rparr>"

text \<open>
  The history of a user as the handlers read it, the entry of one exchange, and a
  history with an entry put after it.
\<close>

definition stored_history :: "user_row \<Rightarrow> string" where
  "stored_history row = (case u_history row of None \<Rightarrow> [] | Some h \<Rightarrow> h)"

definition exchange_entry :: "string \<Rightarrow> string \<Rightarrow> string" where
  "exchange_entry user_text ai_text = ''User: '' @ user_text @ '' | AI: '' @ ai_text"

definition appended_history :: "string \<Rightarrow> string \<Rightarrow> string" where
  "appended_history old entry = (if old = [] then entry else old @ '' | '' @ entry)"

text \<open>
  A /get session that has left the narrative: in the questionnaire (counter at least 4)
  or finished (counter -1).
\<close>

definition past_narrative :: "session \<Rightarrow> bool" where
  "past_narrative s = (InDiagnosis s \<and> \<not> InCounselor s \<and> (total s \<ge> 4 \<or> total s = - 1))"

section \<open>The user of a request (auth.py)\<close>

text \<open>
  What \<open>json.loads\<close> returns. A number is an integer here; numbers with a fraction or
  an exponent are left out.
\<close>

datatype json =
    JNull
  | JBool bool
  | JNum int
  | JStr string
  | JArr "json list"
  | JObj "(string \<times> json) list"

text \<open>\<open>not v\<close> is false on these.\<close>

fun truthy :: "json \<Rightarrow> bool" where
  "truthy JNull = False"
| "truthy (JBool b) = b"
| "truthy (JNum n) = (n \<noteq> 0)"
| "truthy (JStr s) = (s \<noteq> [])"
| "truthy (JArr xs) = (xs \<noteq> [])"
| "truthy (JObj kvs) = (kvs \<noteq> [])"

text \<open>\<open>d.get(key)\<close> on a parsed object: of a key written twice the last one counts.\<close>

definition dict_get :: "(string \<times> json) list \<Rightarrow> string \<Rightarrow> json option" where
  "dict_get kvs key = map_of (rev kvs) key"

text \<open>
  \<open>get_current_user\<close>. The parser is a parameter, with \<open>None\<close> for a text that is not
  JSON. The cookie is the value of \<open>request.cookies.get("session")\<close>. A cookie that is
  JSON but no object has no \<open>get\<close>: the \<open>AttributeError\<close> is none of the exceptions the
  function catches.
\<close>

definition get_current_user :: "(string \<Rightarrow> json option) \<Rightarrow> string option \<Rightarrow> exn + json" where
  "get_current_user loads session_cookie =
     (case session_cookie of
        None \<Rightarrow> Inl (HTTPException 401 ''Not authenticated'')
      | Some c \<Rightarrow>
          if c = [] then Inl (HTTPException 401 ''Not authenticated'')
          else (case loads c of
                  None \<Rightarrow> Inl (HTTPException 401 ''Invalid session'')
                | Some (JObj kvs) \<Rightarrow>
                    (case dict_get kvs ''username'' of
                       None \<Rightarrow> Inl (HTTPException 401 ''Invalid session'')
                     | Some username \<Rightarrow>
                         if truthy username then Inr username
                         else Inl (HTTPException 401 ''Invalid session''))
                | Some _ \<Rightarrow> Inl AttributeError))"

text \<open>
  The first lines of the three chat handlers:
  \<open>try: username = get_current_user(request) except HTTPException: username = "guest"\<close>.
\<close>

definition chat_username :: "(string \<Rightarrow> json option) \<Rightarrow> string option \<Rightarrow> exn + json" where
  "chat_username loads session_cookie =
     (case get_current_user loads session_cookie of
        Inl (HTTPException code detail) \<Rightarrow> Inr (JStr ''guest'')
      | Inl e \<Rightarrow> Inl e
      | Inr username \<Rightarrow> Inr username)"






text \<open>A parser that knows three texts, for the examples.\<close>

definition example_loads :: "string \<Rightarrow> json option" where
  \<open>example_loads c =
     (if c = ''{"username": "alice"}'' then Some (JObj [(''username'', JStr ''alice'')])
      else if c = ''{}'' then Some (JObj [])
      else if c = ''[]'' then Some (JArr [])
      else None)\<close>

(* PROPERTIES *)

section \<open>Properties\<close>

subsection \<open>Answers and tables\<close>

lemma likert_py_int:
  "msg \<in> set likert_tokens \<Longrightarrow> \<exists>n. py_int msg = Inr n \<and> 0 \<le> n \<and> n \<le> 3"
  by (auto simp: likert_tokens_def py_int_def int_literal_def max_str_digits_def strip_def is_space_def
      digits_val_def is_digit_def)

lemma py_int_digit:
  "py_int ''0'' = Inr 0" "py_int ''1'' = Inr 1" "py_int ''2'' = Inr 2" "py_int ''3'' = Inr 3"
  by (simp_all add: py_int_def int_literal_def max_str_digits_def strip_def is_space_def digits_val_def
      is_digit_def)

lemma calculate_anxiety_severity_label: "calculate_anxiety_severity sc = anxiety_label sc"
  by (simp add: calculate_anxiety_severity_def anxiety_label_def)

lemma anxiety_severity_label: "0 \<le> sc \<Longrightarrow> fst (anxiety_severity sc) = anxiety_label sc"
  by (simp add: anxiety_severity_def anxiety_label_def)

subsection \<open>The last Anxiety item\<close>

lemma get_anxiety_last:
  assumes "InDiagnosis s" "\<not> InCounselor s" "predicted_class s = Some ''Anxiety''" "total s = 10"
    and "msg \<in> set likert_tokens" "py_int msg = Inr n"
    and "online d" "users d username = Some row"
  shows "o_session (get_response_body P L username msg s d st) = s\<lparr>userScore := userScore s + n, total := - 1\<rparr>"
    and "o_db (get_response_body P L username msg s d st) =
           d\<lparr>users := (users d)(username \<mapsto> row\<lparr>u_severity := fst (anxiety_severity (userScore s + n))\<rparr>)\<rparr>"
    and "o_result (get_response_body P L username msg s d st) = Inr (snd (anxiety_severity (userScore s + n)))"
  using assms
  by (simp_all add: get_response_body_def diagnosis_workflow_def anxiety_questionnaire_def
      score_and_finish_def finish_def update_severity_def)

lemma chat_anxiety_last:
  assumes "disorder ds = Some ''Anxiety''" "req_step rq \<ge> 4" "step ds \<ge> 9"
    and "py_int (req_user_input rq) = Inr m"
    and "online d" "users d username = Some row"
  shows "do_db (diagnosis_chat P username rq ds d) =
           d\<lparr>users := (users d)(username \<mapsto> row\<lparr>u_severity := calculate_anxiety_severity (score ds + m)\<rparr>)\<rparr>"
    and "do_result (diagnosis_chat P username rq ds d) =
           Inr (Some \<lparr>message = ''The severity of your Anxiety Disorder is '' @ calculate_anxiety_severity (score ds + m) @ ''.'',
                      r_disorder = Some ''Anxiety'', r_severity = Some (calculate_anxiety_severity (score ds + m)),
                      completed = True\<rparr>)"
    and "step (do_session (diagnosis_chat P username rq ds d)) = - 1"
  using assms
  by (simp_all add: diagnosis_chat_def diagnosis_chat_body_def handle_questionnaire_response_def
      anxiety_questions_def update_severity_def Let_def)

text \<open>
  C1. The answer that completes an Anxiety questionnaire writes to the user's row the
  label the thresholds of the specification give to the accumulated score (at most 4
  Minimal, 5 to 9 Mild, 10 to 14 Moderate, 15 and more Severe), in the /get handler,
  whose score is never negative, and in the /diagnosis/chat handler alike. A score of
  6 is Mild in both tables.
\<close>

theorem anxiety_score_to_severity:
  assumes "InDiagnosis s" "\<not> InCounselor s" "predicted_class s = Some ''Anxiety''" "total s = 10"
    and "msg \<in> set likert_tokens" "py_int msg = Inr n" "0 \<le> userScore s"
    and "disorder ds = Some ''Anxiety''" "req_step rq \<ge> 4" "step ds \<ge> 9"
    and "py_int (req_user_input rq) = Inr m"
    and "online d" "users d username = Some row"
  shows "userScore (o_session (get_response_body P L username msg s d st)) = userScore s + n
       \<and> users (o_db (get_response_body P L username msg s d st)) username
           = Some (row\<lparr>u_severity := anxiety_label (userScore s + n)\<rparr>)
       \<and> users (do_db (diagnosis_chat P username rq ds d)) username
           = Some (row\<lparr>u_severity := anxiety_label (score ds + m)\<rparr>)
       \<and> calculate_anxiety_severity 6 = ''Mild'' \<and> fst (anxiety_severity 6) = ''Mild''"
proof -
  from assms(5,6) likert_py_int have n0: "0 \<le> n" by fastforce
  have "userScore (o_session (get_response_body P L username msg s d st)) = userScore s + n"
    using get_anxiety_last(1)[OF assms(1-6) assms(12,13)] by simp
  moreover have "users (o_db (get_response_body P L username msg s d st)) username
           = Some (row\<lparr>u_severity := anxiety_label (userScore s + n)\<rparr>)"
    using get_anxiety_last(2)[OF assms(1-6) assms(12,13)] anxiety_severity_label[of "userScore s + n"]
      n0 assms(7) by simp
  moreover have "users (do_db (diagnosis_chat P username rq ds d)) username
           = Some (row\<lparr>u_severity := anxiety_label (score ds + m)\<rparr>)"
    using chat_anxiety_last(1)[OF assms(8-13)] by (simp add: calculate_anxiety_severity_label)
  moreover have "calculate_anxiety_severity 6 = ''Mild''"
    by (simp add: calculate_anxiety_severity_def)
  moreover have "fst (anxiety_severity 6) = ''Mild''"
    by (simp add: anxiety_severity_def)
  ultimately show ?thesis by blast
qed

theorem anxiety_score_to_severity_witness:
  "users (o_db (get_response_body no_classifier no_counsellor ''alice'' ''2''
             (questionnaire_session ''Anxiety'' 10 4) alice_db Map.empty)) ''alice''
     = Some (alice_row\<lparr>u_severity := ''Mild''\<rparr>)
   \<and> users (do_db (diagnosis_chat no_classifier ''alice'' \<lparr>req_user_input = ''3'', req_step = 9\<rparr>
             (chat_session ''Anxiety'' 9 12) alice_db)) ''alice''
     = Some (alice_row\<lparr>u_severity := ''Severe''\<rparr>)"
  using anxiety_score_to_severity[of "questionnaire_session ''Anxiety'' 10 4" "''2''" 2
      "chat_session ''Anxiety'' 9 12" "\<lparr>req_user_input = ''3'', req_step = 9\<rparr>" 3
      alice_db "''alice''" alice_row no_classifier no_counsellor Map.empty]
  by (simp add: questionnaire_session_def chat_session_def alice_db_def likert_tokens_def
      py_int_digit anxiety_label_def)

subsection \<open>Answers outside the expected domain\<close>

lemma get_invalid_likert:
  assumes "InDiagnosis s" "\<not> InCounselor s" "total s \<ge> 4"
    and "predicted_class s = Some lab" "lab \<in> {''Anxiety'', ''Depression'', ''Addiction''}"
    and "msg \<notin> set likert_tokens"
  shows "get_response_body P L username msg s d st =
           \<lparr>o_session = s, o_db = d, o_store = st, o_calls = [], o_result = Inr required_format\<rparr>"
  using assms
  by (auto simp: get_response_body_def diagnosis_workflow_def anxiety_questionnaire_def
      depression_questionnaire_def addiction_questionnaire_def)

lemma get_invalid_ptsd:
  assumes "InDiagnosis s" "\<not> InCounselor s" "total s \<ge> 4"
    and "predicted_class s = Some ''PTSD''"
    and "lower msg \<notin> set yes_tokens" "lower msg \<notin> set no_tokens"
  shows "get_response_body P L username msg s d st =
           \<lparr>o_session = s, o_db = d, o_store = st, o_calls = [],
            o_result = Inr (if total s \<le> 9 then required_format_ptsd else thank_you)\<rparr>"
  using assms
  by (auto simp: get_response_body_def diagnosis_workflow_def ptsd_questionnaire_def ptsd_item_def)

lemma get_response_unchanged:
  assumes "user_sessions w username = Some s"
    and "get_response_body P L username msg s (db w) (chat_store w) =
           \<lparr>o_session = s, o_db = db w, o_store = chat_store w, o_calls = [], o_result = Inr r\<rparr>"
  shows "get_response P L username msg w = (w, r)"
  using assms by (simp add: get_response_def reply_of_def map_upd_triv Let_def)

lemma chat_not_an_integer:
  assumes "disorder ds = Some ''Anxiety''" "req_step rq \<ge> 4" "py_int (req_user_input rq) = Inl e"
  shows "diagnosis_chat P username rq ds d =
           \<lparr>do_session = ds, do_db = d, do_calls = [], do_result = Inl http_500\<rparr>"
  using assms
  by (simp add: diagnosis_chat_def diagnosis_chat_body_def handle_questionnaire_response_def Let_def)

text \<open>
  In the /get handler an answer outside the expected domain is asked for again and
  changes nothing, at every state where an item is pending: not one of 0, 1, 2, 3 for
  Anxiety, Depression and Addiction; neither yes nor no, whatever the case of the
  letters, for PTSD (counter 4 to 9). The whole process state stays as it was: counter,
  score, disorder, database and chat store.
\<close>

lemma get_invalid_answer_reprompts:
  assumes "user_sessions w username = Some s" "InDiagnosis s" "\<not> InCounselor s" "total s \<ge> 4"
    and "predicted_class s = Some lab"
    and "(lab \<in> {''Anxiety'', ''Depression'', ''Addiction''} \<and> msg \<notin> set likert_tokens)
       \<or> (lab = ''PTSD'' \<and> total s \<le> 9 \<and> lower msg \<notin> set yes_tokens \<and> lower msg \<notin> set no_tokens)"
  shows "get_response P L username msg w =
           (w, if lab = ''PTSD'' then required_format_ptsd else required_format)"
proof -
  from assms(6) show ?thesis
  proof
    assume a: "lab \<in> {''Anxiety'', ''Depression'', ''Addiction''} \<and> msg \<notin> set likert_tokens"
    then have "lab \<noteq> ''PTSD''" by auto
    moreover have "get_response P L username msg w = (w, required_format)"
      using get_response_unchanged[OF assms(1)] get_invalid_likert[OF assms(2-5)] a by blast
    ultimately show ?thesis by simp
  next
    assume a: "lab = ''PTSD'' \<and> total s \<le> 9 \<and> lower msg \<notin> set yes_tokens \<and> lower msg \<notin> set no_tokens"
    have "get_response P L username msg w =
            (w, if total s \<le> 9 then required_format_ptsd else thank_you)"
      using get_response_unchanged[OF assms(1)] get_invalid_ptsd[OF assms(2-4)] assms(5) a
      by blast
    then show ?thesis using a by simp
  qed
qed

lemma py_int_seven: "py_int ''7'' = Inr 7"
  by (simp add: py_int_def int_literal_def max_str_digits_def strip_def is_space_def digits_val_def
      is_digit_def)

lemma lower_maybe: "lower ''maybe'' = ''maybe''"
  by (simp add: lower_def lower_char_def)

text \<open>
  C2. The /diagnosis/chat handler does not check the answer against its domain. In an
  Anxiety session at the first item, the answer 7, which is none of 0, 1, 2, 3, is
  added to the score and the session moves to step 5 with the next question as the
  reply; in a PTSD session at the first item, the answer "maybe", which is neither yes
  nor no, is taken as a yes and the session moves to step 5. Neither is a re-prompt,
  and neither leaves the step counter and the score as they were.
\<close>

theorem chat_invalid_answer_scored:
  "''7'' \<notin> set likert_tokens
   \<and> diagnosis_chat no_classifier ''alice'' \<lparr>req_user_input = ''7'', req_step = 4\<rparr>
         (chat_session ''Anxiety'' 4 0) alice_db
       = \<lparr>do_session = chat_session ''Anxiety'' 5 7, do_db = alice_db, do_calls = [],
          do_result = Inr (Some \<lparr>message = ''Not being able to stop or control worrying'',
                                 r_disorder = None, r_severity = None, completed = False\<rparr>)\<rparr>
   \<and> lower ''maybe'' \<notin> set [''yes'', ''y'', ''no'', ''n'']
   \<and> diagnosis_chat no_classifier ''alice'' \<lparr>req_user_input = ''maybe'', req_step = 4\<rparr>
         (chat_session ''PTSD'' 4 0) alice_db
       = \<lparr>do_session = chat_session ''PTSD'' 5 0, do_db = alice_db, do_calls = [],
          do_result = Inr (Some \<lparr>message = ''Had nightmares about it or thought about it when you did not want to?'',
                                 r_disorder = None, r_severity = None, completed = False\<rparr>)\<rparr>"
  by (simp add: diagnosis_chat_def diagnosis_chat_body_def handle_questionnaire_response_def Let_def
      chat_session_def py_int_seven lower_maybe anxiety_questions_def ask_next_def py_index_def
      likert_tokens_def)

subsection \<open>Scored questionnaires of the /get handler\<close>

lemma anxiety_step:
  assumes "4 \<le> total s" "total s \<le> 9" "msg \<in> set likert_tokens" "py_int msg = Inr n"
  shows "\<exists>q. anxiety_questionnaire username msg s d = (s\<lparr>userScore := userScore s + n, total := total s + 1\<rparr>, d, Inr q)"
proof -
  from assms(1,2) have "total s = 4 \<or> total s = 5 \<or> total s = 6 \<or> total s = 7 \<or> total s = 8 \<or> total s = 9"
    by arith
  then show ?thesis
    using assms(3,4) by (elim disjE) (simp_all add: anxiety_questionnaire_def score_and_next_def)
qed

lemma depression_step:
  assumes "4 \<le> total s" "total s \<le> 11" "msg \<in> set likert_tokens" "py_int msg = Inr n"
  shows "\<exists>q. depression_questionnaire username msg s d = (s\<lparr>userScore := userScore s + n, total := total s + 1\<rparr>, d, Inr q)"
proof -
  from assms(1,2) have "total s = 4 \<or> total s = 5 \<or> total s = 6 \<or> total s = 7 \<or> total s = 8 \<or> total s = 9
      \<or> total s = 10 \<or> total s = 11"
    by arith
  then show ?thesis
    using assms(3,4) by (elim disjE) (simp_all add: depression_questionnaire_def score_and_next_def)
qed

lemma addiction_step:
  assumes "4 \<le> total s" "total s \<le> 12" "msg \<in> set likert_tokens" "py_int msg = Inr n"
  shows "\<exists>q. addiction_questionnaire username msg s d = (s\<lparr>userScore := userScore s + n, total := total s + 1\<rparr>, d, Inr q)"
proof -
  from assms(1,2) have "total s = 4 \<or> total s = 5 \<or> total s = 6 \<or> total s = 7 \<or> total s = 8 \<or> total s = 9
      \<or> total s = 10 \<or> total s = 11 \<or> total s = 12"
    by arith
  then show ?thesis
    using assms(3,4) by (elim disjE) (simp_all add: addiction_questionnaire_def score_and_next_def)
qed

lemma anxiety_finish:
  assumes "total s = 10" "msg \<in> set likert_tokens" "py_int msg = Inr n"
  shows "anxiety_questionnaire username msg s d =
           finish username (s\<lparr>userScore := userScore s + n, total := - 1\<rparr>) d anxiety_severity"
  using assms by (simp add: anxiety_questionnaire_def score_and_finish_def)

lemma depression_finish:
  assumes "total s = 12" "msg \<in> set likert_tokens" "py_int msg = Inr n"
  shows "depression_questionnaire username msg s d =
           finish username (s\<lparr>userScore := userScore s + n, total := - 1\<rparr>) d depression_severity"
  using assms by (simp add: depression_questionnaire_def score_and_finish_def)

lemma addiction_finish:
  assumes "total s = 13" "msg \<in> set likert_tokens" "py_int msg = Inr n"
  shows "addiction_questionnaire username msg s d =
           finish username (s\<lparr>userScore := userScore s + n, total := - 1\<rparr>) d addiction_severity"
  using assms by (simp add: addiction_questionnaire_def score_and_finish_def)


lemma likert_step:
  assumes "InDiagnosis s" "\<not> InCounselor s" "predicted_class s = Some lab"
    and "lab \<in> {''Anxiety'', ''Depression'', ''Addiction''}"
    and "4 \<le> total s" "total s < 3 + questionnaire_length lab"
    and "msg \<in> set likert_tokens" "py_int msg = Inr n"
  shows "\<exists>q. get_response_body P L username msg s d st =
           \<lparr>o_session = s\<lparr>userScore := userScore s + n, total := total s + 1\<rparr>,
            o_db = d, o_store = st, o_calls = [], o_result = Inr q\<rparr>"
proof -
  consider "lab = ''Anxiety''" | "lab = ''Depression''" | "lab = ''Addiction''"
    using assms(4) by auto
  then show ?thesis
  proof cases
    case 1
    then have "total s \<le> 9" using assms(6) by (simp add: questionnaire_length_def)
    from anxiety_step[OF assms(5) this assms(7,8), of username d] obtain q where
      "anxiety_questionnaire username msg s d = (s\<lparr>userScore := userScore s + n, total := total s + 1\<rparr>, d, Inr q)"
      by blast
    then show ?thesis using assms(1-3,5) 1
      by (simp add: get_response_body_def diagnosis_workflow_def)
  next
    case 2
    then have "total s \<le> 11" using assms(6) by (simp add: questionnaire_length_def)
    from depression_step[OF assms(5) this assms(7,8), of username d] obtain q where
      "depression_questionnaire username msg s d = (s\<lparr>userScore := userScore s + n, total := total s + 1\<rparr>, d, Inr q)"
      by blast
    then show ?thesis using assms(1-3,5) 2
      by (simp add: get_response_body_def diagnosis_workflow_def)
  next
    case 3
    then have "total s \<le> 12" using assms(6) by (simp add: questionnaire_length_def)
    from addiction_step[OF assms(5) this assms(7,8), of username d] obtain q where
      "addiction_questionnaire username msg s d = (s\<lparr>userScore := userScore s + n, total := total s + 1\<rparr>, d, Inr q)"
      by blast
    then show ?thesis using assms(1-3,5) 3
      by (simp add: get_response_body_def diagnosis_workflow_def)
  qed
qed

lemma likert_last:
  assumes "InDiagnosis s" "\<not> InCounselor s" "predicted_class s = Some lab"
    and "lab \<in> {''Anxiety'', ''Depression'', ''Addiction''}"
    and "total s = 3 + questionnaire_length lab"
    and "msg \<in> set likert_tokens" "py_int msg = Inr n"
    and "online d" "users d username = Some row"
  shows "get_response_body P L username msg s d st =
           \<lparr>o_session = s\<lparr>userScore := userScore s + n, total := - 1\<rparr>,
            o_db = d\<lparr>users := (users d)(username \<mapsto> row\<lparr>u_severity := fst (severity_table lab (userScore s + n))\<rparr>)\<rparr>,
            o_store = st, o_calls = [],
            o_result = Inr (snd (severity_table lab (userScore s + n)))\<rparr>"
proof -
  consider "lab = ''Anxiety''" | "lab = ''Depression''" | "lab = ''Addiction''"
    using assms(4) by auto
  then show ?thesis
  proof cases
    case 1
    then have t: "total s = 10" using assms(5) by (simp add: questionnaire_length_def)
    show ?thesis using assms(1-3,8,9) 1 t anxiety_finish[OF t assms(6,7), of username d]
      by (simp add: get_response_body_def diagnosis_workflow_def finish_def update_severity_def
          severity_table_def)
  next
    case 2
    then have t: "total s = 12" using assms(5) by (simp add: questionnaire_length_def)
    show ?thesis using assms(1-3,8,9) 2 t depression_finish[OF t assms(6,7), of username d]
      by (simp add: get_response_body_def diagnosis_workflow_def finish_def update_severity_def
          severity_table_def)
  next
    case 3
    then have t: "total s = 13" using assms(5) by (simp add: questionnaire_length_def)
    show ?thesis using assms(1-3,8,9) 3 t addiction_finish[OF t assms(6,7), of username d]
      by (simp add: get_response_body_def diagnosis_workflow_def finish_def update_severity_def
          severity_table_def)
  qed
qed

lemma run_get_append:
  "fst (run_get P L u (xs @ ys) w) = fst (run_get P L u ys (fst (run_get P L u xs w)))"
  by (induction xs arbitrary: w) (simp_all add: split_beta)


lemma get_response_world:
  assumes "user_sessions w u = Some s"
    and "get_response_body P L u msg s (db w) (chat_store w) =
           \<lparr>o_session = s', o_db = d', o_store = chat_store w, o_calls = [], o_result = Inr q\<rparr>"
  shows "get_response P L u msg w = (w\<lparr>user_sessions := (user_sessions w)(u \<mapsto> s'), db := d'\<rparr>, q)"
  using assms by (simp add: get_response_def reply_of_def Let_def)

lemma likert_run:
  assumes "lab \<in> {''Anxiety'', ''Depression'', ''Addiction''}"
  shows "set as \<subseteq> set likert_tokens \<Longrightarrow> user_sessions w u = Some s \<Longrightarrow> InDiagnosis s \<Longrightarrow>
         \<not> InCounselor s \<Longrightarrow> predicted_class s = Some lab \<Longrightarrow> 4 \<le> total s \<Longrightarrow>
         total s + int (length as) \<le> 3 + questionnaire_length lab \<Longrightarrow>
         fst (run_get P L u as w) =
           w\<lparr>user_sessions := (user_sessions w)
                (u \<mapsto> s\<lparr>userScore := userScore s + answers_total as,
                        total := total s + int (length as)\<rparr>)\<rparr>"
proof (induction as arbitrary: w s)
  case Nil
  then show ?case by (simp add: map_upd_triv)
next
  case (Cons a as)
  from Cons.prems(1) have a: "a \<in> set likert_tokens" and as: "set as \<subseteq> set likert_tokens" by auto
  from likert_py_int[OF a] obtain n where n: "py_int a = Inr n" by blast
  let ?s1 = "s\<lparr>userScore := userScore s + n, total := total s + 1\<rparr>"
  have lt: "total s < 3 + questionnaire_length lab" using Cons.prems(7) by simp
  from likert_step[OF Cons.prems(3,4,5) assms Cons.prems(6) lt a n, of P L u "db w" "chat_store w"]
  obtain q where "get_response_body P L u a s (db w) (chat_store w) =
      \<lparr>o_session = ?s1, o_db = db w, o_store = chat_store w, o_calls = [], o_result = Inr q\<rparr>"
    by blast
  from get_response_world[OF Cons.prems(2) this]
  have step: "get_response P L u a w = (w\<lparr>user_sessions := (user_sessions w)(u \<mapsto> ?s1)\<rparr>, q)"
    by simp
  let ?w1 = "w\<lparr>user_sessions := (user_sessions w)(u \<mapsto> ?s1)\<rparr>"
  have ih: "fst (run_get P L u as ?w1) =
      ?w1\<lparr>user_sessions := (user_sessions ?w1)
            (u \<mapsto> ?s1\<lparr>userScore := userScore ?s1 + answers_total as,
                      total := total ?s1 + int (length as)\<rparr>)\<rparr>"
    using Cons.prems(3-7) by (intro Cons.IH[OF as]) simp_all
  have "fst (run_get P L u (a # as) w) = fst (run_get P L u as ?w1)"
    using step by (simp add: split_beta)
  also note ih
  also have "?w1\<lparr>user_sessions := (user_sessions ?w1)
            (u \<mapsto> ?s1\<lparr>userScore := userScore ?s1 + answers_total as,
                      total := total ?s1 + int (length as)\<rparr>)\<rparr>
       = w\<lparr>user_sessions := (user_sessions w)
                (u \<mapsto> s\<lparr>userScore := userScore s + answers_total (a # as),
                        total := total s + int (length (a # as))\<rparr>)\<rparr>"
    using n by (simp add: add.assoc)
  finally show ?case .
qed


lemma answers_total_append: "answers_total (xs @ ys) = answers_total xs + answers_total ys"
  by (induction xs) simp_all

lemma likert_complete:
  assumes lab: "lab \<in> {''Anxiety'', ''Depression'', ''Addiction''}"
    and as: "set as \<subseteq> set likert_tokens" "int (length as) = questionnaire_length lab"
    and s: "user_sessions w u = Some s" "InDiagnosis s" "\<not> InCounselor s"
      "predicted_class s = Some lab" "total s = 4"
    and d: "online (db w)" "users (db w) u = Some row"
  shows "fst (run_get P L u as w) =
           w\<lparr>user_sessions := (user_sessions w)
                (u \<mapsto> s\<lparr>userScore := userScore s + answers_total as, total := - 1\<rparr>),
             db := (db w)\<lparr>users := (users (db w))
                (u \<mapsto> row\<lparr>u_severity := fst (severity_table lab (userScore s + answers_total as))\<rparr>)\<rparr>\<rparr>"
proof -
  from lab as(2) have "as \<noteq> []" by (auto simp: questionnaire_length_def)
  then obtain xs a where split: "as = xs @ [a]" by (metis rev_exhaust)
  with as have xs: "set xs \<subseteq> set likert_tokens" and a: "a \<in> set likert_tokens"
    and len: "int (length xs) = questionnaire_length lab - 1" by auto
  from likert_py_int[OF a] obtain n where n: "py_int a = Inr n" by blast
  let ?s1 = "s\<lparr>userScore := userScore s + answers_total xs, total := total s + int (length xs)\<rparr>"
  let ?w1 = "w\<lparr>user_sessions := (user_sessions w)(u \<mapsto> ?s1)\<rparr>"
  have run: "fst (run_get P L u xs w) = ?w1"
    using likert_run[OF lab xs s(1-4)] s(5) len by simp
  have t1: "total ?s1 = 3 + questionnaire_length lab" using s(5) len by simp
  have body: "get_response_body P L u a ?s1 (db ?w1) (chat_store ?w1) =
           \<lparr>o_session = ?s1\<lparr>userScore := userScore ?s1 + n, total := - 1\<rparr>,
            o_db = (db ?w1)\<lparr>users := (users (db ?w1))(u \<mapsto> row\<lparr>u_severity := fst (severity_table lab (userScore ?s1 + n))\<rparr>)\<rparr>,
            o_store = chat_store ?w1, o_calls = [],
            o_result = Inr (snd (severity_table lab (userScore ?s1 + n)))\<rparr>"
    using s(2-4) d by (intro likert_last[OF _ _ _ lab t1 a n]) simp_all
  have "user_sessions ?w1 u = Some ?s1" by simp
  from get_response_world[OF this body]
  have last: "fst (get_response P L u a ?w1) =
      ?w1\<lparr>user_sessions := (user_sessions ?w1)(u \<mapsto> ?s1\<lparr>userScore := userScore ?s1 + n, total := - 1\<rparr>),
          db := (db ?w1)\<lparr>users := (users (db ?w1))(u \<mapsto> row\<lparr>u_severity := fst (severity_table lab (userScore ?s1 + n))\<rparr>)\<rparr>\<rparr>"
    by simp
  have "fst (run_get P L u as w) = fst (get_response P L u a ?w1)"
    unfolding split run_get_append run by (simp add: split_beta)
  also note last
  finally show ?thesis
    using n by (simp add: split answers_total_append add.assoc)
qed

text \<open>
  In the /get handler a scored questionnaire is a sequence of fixed length: 7 answers for Anxiety, 9 for Depression, 10 for Addiction, each one of
  0, 1, 2, 3. From the first item (counter 4), a run of fewer answers leaves the
  database alone and the counter on the next item, with the answers summed into the
  score; the run of exactly that many answers closes the session (counter -1) and
  writes to the user's row the severity its table gives to the sum.
\<close>

theorem questionnaire_fixed_length:
  assumes "lab \<in> {''Anxiety'', ''Depression'', ''Addiction''}"
    and "set as \<subseteq> set likert_tokens"
    and "user_sessions w u = Some s" "InDiagnosis s" "\<not> InCounselor s"
      "predicted_class s = Some lab" "total s = 4"
    and "online (db w)" "users (db w) u = Some row"
  shows "(int (length as) < questionnaire_length lab \<longrightarrow>
            fst (run_get P L u as w) =
              w\<lparr>user_sessions := (user_sessions w)
                   (u \<mapsto> s\<lparr>userScore := userScore s + answers_total as,
                           total := 4 + int (length as)\<rparr>)\<rparr>)
       \<and> (int (length as) = questionnaire_length lab \<longrightarrow>
            fst (run_get P L u as w) =
              w\<lparr>user_sessions := (user_sessions w)
                   (u \<mapsto> s\<lparr>userScore := userScore s + answers_total as, total := - 1\<rparr>),
                db := (db w)\<lparr>users := (users (db w))
                   (u \<mapsto> row\<lparr>u_severity := fst (severity_table lab (userScore s + answers_total as))\<rparr>)\<rparr>\<rparr>)
       \<and> (\<forall>a \<in> set as. \<exists>n. py_int a = Inr n \<and> 0 \<le> n \<and> n \<le> 3)"
proof (intro conjI impI ballI)
  assume "int (length as) < questionnaire_length lab"
  then have "total s + int (length as) \<le> 3 + questionnaire_length lab"
    using assms(7) by simp
  from likert_run[OF assms(1,2,3,4,5,6) _ this] assms(7)
  show "fst (run_get P L u as w) =
          w\<lparr>user_sessions := (user_sessions w)
               (u \<mapsto> s\<lparr>userScore := userScore s + answers_total as,
                       total := 4 + int (length as)\<rparr>)\<rparr>"
    by simp
next
  assume "int (length as) = questionnaire_length lab"
  from likert_complete[OF assms(1,2) this assms(3-9)]
  show "fst (run_get P L u as w) =
          w\<lparr>user_sessions := (user_sessions w)
               (u \<mapsto> s\<lparr>userScore := userScore s + answers_total as, total := - 1\<rparr>),
            db := (db w)\<lparr>users := (users (db w))
               (u \<mapsto> row\<lparr>u_severity := fst (severity_table lab (userScore s + answers_total as))\<rparr>)\<rparr>\<rparr>" .
next
  fix a assume "a \<in> set as"
  with assms(2) have "a \<in> set likert_tokens" by auto
  then show "\<exists>n. py_int a = Inr n \<and> 0 \<le> n \<and> n \<le> 3" by (rule likert_py_int)
qed

theorem questionnaire_fixed_length_witness:
  "fst (run_get no_classifier no_counsellor ''alice'' [''1'', ''2'', ''0'']
          (alice_world (questionnaire_session ''Anxiety'' 4 0)))
     = alice_world (questionnaire_session ''Anxiety'' 7 3)
   \<and> fst (run_get no_classifier no_counsellor ''alice'' [''1'', ''2'', ''0'', ''3'', ''1'', ''1'', ''2'']
          (alice_world (questionnaire_session ''Anxiety'' 4 0)))
     = (alice_world (questionnaire_session ''Anxiety'' (- 1) 10))
         \<lparr>db := alice_db\<lparr>users := [''alice'' \<mapsto> alice_row\<lparr>u_severity := ''Moderate''\<rparr>]\<rparr>\<rparr>"
proof -
  let ?as = "[''1'', ''2'', ''0'', ''3'', ''1'', ''1'', ''2'']"
  let ?bs = "[''1'', ''2'', ''0'']"
  let ?s = "questionnaire_session ''Anxiety'' 4 0"
  let ?w = "alice_world ?s"
  have h1: "''Anxiety'' \<in> {''Anxiety'', ''Depression'', ''Addiction''}" by simp
  have h2: "set ?as \<subseteq> set likert_tokens" "set ?bs \<subseteq> set likert_tokens"
    by (simp_all add: likert_tokens_def)
  have h3: "user_sessions ?w ''alice'' = Some ?s" by (simp add: alice_world_def)
  have h4: "InDiagnosis ?s" "\<not> InCounselor ?s" "predicted_class ?s = Some ''Anxiety''" "total ?s = 4"
    by (simp_all add: questionnaire_session_def)
  have h5: "online (db ?w)" "users (db ?w) ''alice'' = Some alice_row"
    by (simp_all add: alice_world_def alice_db_def)
  have len: "int (length ?as) = questionnaire_length ''Anxiety''"
    "int (length ?bs) < questionnaire_length ''Anxiety''"
    by (simp_all add: questionnaire_length_def)
  have tot: "answers_total ?as = 10" "answers_total ?bs = 3" by (simp_all add: py_int_digit)
  have sev: "fst (severity_table ''Anxiety'' 10) = ''Moderate''"
    by (simp add: severity_table_def anxiety_severity_def)
  from questionnaire_fixed_length[OF h1 h2(1) h3 h4 h5, of no_classifier no_counsellor] len(1)
  have "fst (run_get no_classifier no_counsellor ''alice'' ?as ?w) =
              ?w\<lparr>user_sessions := (user_sessions ?w)
                   (''alice'' \<mapsto> ?s\<lparr>userScore := userScore ?s + answers_total ?as, total := - 1\<rparr>),
                db := (db ?w)\<lparr>users := (users (db ?w))
                   (''alice'' \<mapsto> alice_row\<lparr>u_severity := fst (severity_table ''Anxiety'' (userScore ?s + answers_total ?as))\<rparr>)\<rparr>\<rparr>"
    by blast
  also have "\<dots> = (alice_world (questionnaire_session ''Anxiety'' (- 1) 10))
         \<lparr>db := alice_db\<lparr>users := [''alice'' \<mapsto> alice_row\<lparr>u_severity := ''Moderate''\<rparr>]\<rparr>\<rparr>"
    unfolding tot by (simp add: alice_world_def questionnaire_session_def alice_db_def sev)
  finally have full: "fst (run_get no_classifier no_counsellor ''alice'' ?as ?w) =
      (alice_world (questionnaire_session ''Anxiety'' (- 1) 10))
         \<lparr>db := alice_db\<lparr>users := [''alice'' \<mapsto> alice_row\<lparr>u_severity := ''Moderate''\<rparr>]\<rparr>\<rparr>" .
  from questionnaire_fixed_length[OF h1 h2(2) h3 h4 h5, of no_classifier no_counsellor] len(2)
  have "fst (run_get no_classifier no_counsellor ''alice'' ?bs ?w) =
              ?w\<lparr>user_sessions := (user_sessions ?w)
                   (''alice'' \<mapsto> ?s\<lparr>userScore := userScore ?s + answers_total ?bs,
                           total := 4 + int (length ?bs)\<rparr>)\<rparr>"
    by blast
  also have "\<dots> = alice_world (questionnaire_session ''Anxiety'' 7 3)"
    unfolding tot by (simp add: alice_world_def questionnaire_session_def)
  finally show ?thesis using full by simp
qed

subsection \<open>Scored questionnaires of the /diagnosis/chat handler\<close>

text \<open>
  The handler has no Depression and no Addiction questionnaire: whatever the step of the
  session, an answer is replied to with the completed diagnosis, nothing is scored and
  nothing is written.
\<close>

lemma chat_no_depression_addiction:
  assumes "disorder ds = Some lab" "lab \<in> {''Depression'', ''Addiction''}" "req_step rq \<ge> 4"
  shows "diagnosis_chat P username rq ds d =
           \<lparr>do_session = ds, do_db = d, do_calls = [],
            do_result = Inr (Some \<lparr>message = ''Diagnosis completed. Please consult a healthcare professional.'',
                                   r_disorder = None, r_severity = None, completed = True\<rparr>)\<rparr>"
  using assms
  by (auto simp: diagnosis_chat_def diagnosis_chat_body_def handle_questionnaire_response_def)

lemma chat_anxiety_next:
  assumes "4 \<le> k" "k \<le> 8" "req_step rq \<ge> 4" "py_int (req_user_input rq) = Inr n"
  shows "diagnosis_chat P u rq (chat_session ''Anxiety'' k sc) d =
           \<lparr>do_session = chat_session ''Anxiety'' (k + 1) (sc + n), do_db = d, do_calls = [],
            do_result = Inr (Some \<lparr>message = anxiety_questions ! nat (k - 4), r_disorder = None,
                                   r_severity = None, completed = False\<rparr>)\<rparr>"
  using assms
  by (simp add: diagnosis_chat_def diagnosis_chat_body_def handle_questionnaire_response_def
      chat_session_def ask_next_def py_index_def Let_def anxiety_questions_def)

text \<open>
  C3. The Anxiety questionnaire of /diagnosis/chat ends on the sixth answer, not on the
  seventh: the test \<open>step - 3 < len(questions)\<close> holds for the steps 4 to 8 only, so
  the last of the six listed questions is never asked and the severity is computed
  from six answers. Here the six answers 3 are sent with the steps 4 to 9; the first
  five are not completed, the sixth is.
\<close>

theorem chat_anxiety_completes_after_six:
  "chat_answers [''3'', ''3'', ''3'', ''3'', ''3'', ''3'']
     = [\<lparr>req_user_input = ''3'', req_step = 4\<rparr>, \<lparr>req_user_input = ''3'', req_step = 5\<rparr>,
        \<lparr>req_user_input = ''3'', req_step = 6\<rparr>, \<lparr>req_user_input = ''3'', req_step = 7\<rparr>,
        \<lparr>req_user_input = ''3'', req_step = 8\<rparr>, \<lparr>req_user_input = ''3'', req_step = 9\<rparr>]
   \<and> map is_completed (run_chat no_classifier ''alice'' (chat_answers [''3'', ''3'', ''3'', ''3'', ''3'', ''3''])
       (chat_session ''Anxiety'' 4 0) alice_db)
     = [False, False, False, False, False, True]
   \<and> do_result (last (run_chat no_classifier ''alice'' (chat_answers [''3'', ''3'', ''3'', ''3'', ''3'', ''3''])
       (chat_session ''Anxiety'' 4 0) alice_db))
     = Inr (Some \<lparr>message = ''The severity of your Anxiety Disorder is Severe.'',
                  r_disorder = Some ''Anxiety'', r_severity = Some ''Severe'', completed = True\<rparr>)"
proof -
  have reqs: "chat_answers [''3'', ''3'', ''3'', ''3'', ''3'', ''3'']
     = [\<lparr>req_user_input = ''3'', req_step = 4\<rparr>, \<lparr>req_user_input = ''3'', req_step = 5\<rparr>,
        \<lparr>req_user_input = ''3'', req_step = 6\<rparr>, \<lparr>req_user_input = ''3'', req_step = 7\<rparr>,
        \<lparr>req_user_input = ''3'', req_step = 8\<rparr>, \<lparr>req_user_input = ''3'', req_step = 9\<rparr>]"
    by (simp add: chat_answers_def)
  have final: "do_result (diagnosis_chat no_classifier ''alice'' \<lparr>req_user_input = ''3'', req_step = 9\<rparr>
      (chat_session ''Anxiety'' 9 15) alice_db)
     = Inr (Some \<lparr>message = ''The severity of your Anxiety Disorder is Severe.'',
                  r_disorder = Some ''Anxiety'', r_severity = Some ''Severe'', completed = True\<rparr>)"
    using chat_anxiety_last(2)[of "chat_session ''Anxiety'' 9 15" "\<lparr>req_user_input = ''3'', req_step = 9\<rparr>"
        3 alice_db "''alice''" alice_row no_classifier]
    by (simp add: chat_session_def alice_db_def py_int_digit calculate_anxiety_severity_def)
  have run: "run_chat no_classifier ''alice'' (chat_answers [''3'', ''3'', ''3'', ''3'', ''3'', ''3''])
       (chat_session ''Anxiety'' 4 0) alice_db
     = [diagnosis_chat no_classifier ''alice'' \<lparr>req_user_input = ''3'', req_step = 4\<rparr> (chat_session ''Anxiety'' 4 0) alice_db,
        diagnosis_chat no_classifier ''alice'' \<lparr>req_user_input = ''3'', req_step = 5\<rparr> (chat_session ''Anxiety'' 5 3) alice_db,
        diagnosis_chat no_classifier ''alice'' \<lparr>req_user_input = ''3'', req_step = 6\<rparr> (chat_session ''Anxiety'' 6 6) alice_db,
        diagnosis_chat no_classifier ''alice'' \<lparr>req_user_input = ''3'', req_step = 7\<rparr> (chat_session ''Anxiety'' 7 9) alice_db,
        diagnosis_chat no_classifier ''alice'' \<lparr>req_user_input = ''3'', req_step = 8\<rparr> (chat_session ''Anxiety'' 8 12) alice_db,
        diagnosis_chat no_classifier ''alice'' \<lparr>req_user_input = ''3'', req_step = 9\<rparr> (chat_session ''Anxiety'' 9 15) alice_db]"
    unfolding reqs by (simp add: chat_anxiety_next py_int_digit Let_def)
  have "map is_completed (run_chat no_classifier ''alice'' (chat_answers [''3'', ''3'', ''3'', ''3'', ''3'', ''3''])
       (chat_session ''Anxiety'' 4 0) alice_db) = [False, False, False, False, False, True]"
    unfolding run by (simp add: chat_anxiety_next py_int_digit is_completed_def final)
  moreover have "do_result (last (run_chat no_classifier ''alice'' (chat_answers [''3'', ''3'', ''3'', ''3'', ''3'', ''3''])
       (chat_session ''Anxiety'' 4 0) alice_db))
     = Inr (Some \<lparr>message = ''The severity of your Anxiety Disorder is Severe.'',
                  r_disorder = Some ''Anxiety'', r_severity = Some ''Severe'', completed = True\<rparr>)"
    unfolding run by (simp add: final)
  ultimately show ?thesis using reqs by blast
qed

subsection \<open>The PTSD questionnaire ends when no traumatic event is reported\<close>

lemma lower_no: "lower ''No'' = ''no''" "lower ''NO'' = ''no''" "lower ''no'' = ''no''" "lower ''N'' = ''n''"
  by (simp_all add: lower_def lower_char_def)

lemma get_closed:
  assumes "user_sessions w username = Some s" "InDiagnosis s" "\<not> InCounselor s"
    and "total s = - 1 \<or> (predicted_class s = Some ''PTSD'' \<and> total s = 15)"
  shows "get_response P L username msg w = (w, thank_you)"
proof (rule get_response_unchanged[OF assms(1)])
  from assms(4) show "get_response_body P L username msg s (db w) (chat_store w) =
      \<lparr>o_session = s, o_db = db w, o_store = chat_store w, o_calls = [], o_result = Inr thank_you\<rparr>"
  proof
    assume "total s = - 1"
    then show ?thesis using assms(2,3)
      by (simp add: get_response_body_def diagnosis_workflow_def)
  next
    assume "predicted_class s = Some ''PTSD'' \<and> total s = 15"
    then show ?thesis using assms(2,3)
      by (simp add: get_response_body_def diagnosis_workflow_def ptsd_questionnaire_def)
  qed
qed

lemma run_get_closed:
  assumes "user_sessions w username = Some s" "InDiagnosis s" "\<not> InCounselor s"
    and "total s = - 1 \<or> (predicted_class s = Some ''PTSD'' \<and> total s = 15)"
  shows "run_get P L username ms w = (w, replicate (length ms) thank_you)"
  by (induction ms) (simp_all add: get_closed[OF assms])

lemma get_ptsd_no:
  assumes "user_sessions w username = Some s" "InDiagnosis s" "\<not> InCounselor s"
    and "predicted_class s = Some ''PTSD''" "total s = 4" "lower msg \<in> set no_tokens"
    and "online (db w)" "users (db w) username = Some row"
  shows "get_response P L username msg w =
           (w\<lparr>user_sessions := (user_sessions w)(username \<mapsto> s\<lparr>total := 15\<rparr>),
              db := (db w)\<lparr>users := (users (db w))(username \<mapsto> row\<lparr>u_severity := ''Minimal''\<rparr>)\<rparr>\<rparr>,
            ptsd_no_trauma)"
  using assms
  by (simp add: get_response_def get_response_body_def diagnosis_workflow_def ptsd_questionnaire_def
      update_severity_def reply_of_def Let_def)

lemma chat_ptsd_no:
  assumes "disorder ds = Some ''PTSD''" "step ds = 4" "req_step rq \<ge> 4"
    and "lower (req_user_input rq) \<in> set [''no'', ''n'']"
    and "online d" "users d username = Some row"
  shows "diagnosis_chat P username rq ds d =
           \<lparr>do_session = ds\<lparr>step := - 1\<rparr>,
            do_db = d\<lparr>users := (users d)(username \<mapsto> row\<lparr>u_severity := ''Minimal''\<rparr>)\<rparr>,
            do_calls = [],
            do_result = Inr (Some \<lparr>message = ''PTSD requires a traumatic event. Consider consulting a counselor.'',
                                   r_disorder = Some ''PTSD'', r_severity = Some ''Minimal'',
                                   completed = True\<rparr>)\<rparr>"
  using assms
  by (simp add: diagnosis_chat_def diagnosis_chat_body_def handle_questionnaire_response_def
      save_severity_def update_severity_def Let_def)

text \<open>
  C4. The first PTSD question asks whether a traumatic event was experienced. When the
  answer is "no" (in any case of the letters; the /diagnosis/chat handler also takes
  "n"), the /get handler writes the severity Minimal to the user's row, sets the
  counter to 15 and replies with the closing advice, which is no question; from there
  every further message is answered by the fixed closing reply and changes nothing. The
  /diagnosis/chat handler writes the same severity, sets the step to -1 and returns a
  completed response carrying the severity.
\<close>

theorem ptsd_no_trauma_exit:
  assumes "user_sessions w username = Some s" "InDiagnosis s" "\<not> InCounselor s"
    and "predicted_class s = Some ''PTSD''" "total s = 4" "lower msg \<in> set no_tokens"
    and "online (db w)" "users (db w) username = Some row"
    and "disorder ds = Some ''PTSD''" "step ds = 4" "req_step rq \<ge> 4"
    and "lower (req_user_input rq) \<in> set [''no'', ''n'']"
    and "w' = w\<lparr>user_sessions := (user_sessions w)(username \<mapsto> s\<lparr>total := 15\<rparr>),
                db := (db w)\<lparr>users := (users (db w))(username \<mapsto> row\<lparr>u_severity := ''Minimal''\<rparr>)\<rparr>\<rparr>"
  shows "get_response P L username msg w = (w', ptsd_no_trauma)
       \<and> run_get P L username ms w' = (w', replicate (length ms) thank_you)
       \<and> diagnosis_chat P username rq ds (db w) =
           \<lparr>do_session = ds\<lparr>step := - 1\<rparr>, do_db = db w', do_calls = [],
            do_result = Inr (Some \<lparr>message = ''PTSD requires a traumatic event. Consider consulting a counselor.'',
                                   r_disorder = Some ''PTSD'', r_severity = Some ''Minimal'',
                                   completed = True\<rparr>)\<rparr>"
proof -
  have a: "get_response P L username msg w = (w', ptsd_no_trauma)"
    unfolding assms(13) using assms(1-8) by (rule get_ptsd_no)
  have "user_sessions w' username = Some (s\<lparr>total := 15\<rparr>)" by (simp add: assms(13))
  moreover have "InDiagnosis (s\<lparr>total := 15\<rparr>)" "\<not> InCounselor (s\<lparr>total := 15\<rparr>)"
    "total (s\<lparr>total := 15\<rparr>) = - 1 \<or> (predicted_class (s\<lparr>total := 15\<rparr>) = Some ''PTSD'' \<and> total (s\<lparr>total := 15\<rparr>) = 15)"
    using assms(2-4) by simp_all
  ultimately have b: "run_get P L username ms w' = (w', replicate (length ms) thank_you)"
    by (rule run_get_closed)
  have c: "diagnosis_chat P username rq ds (db w) =
           \<lparr>do_session = ds\<lparr>step := - 1\<rparr>, do_db = db w', do_calls = [],
            do_result = Inr (Some \<lparr>message = ''PTSD requires a traumatic event. Consider consulting a counselor.'',
                                   r_disorder = Some ''PTSD'', r_severity = Some ''Minimal'',
                                   completed = True\<rparr>)\<rparr>"
    using chat_ptsd_no[OF assms(9-12) assms(7,8)] by (simp add: assms(13))
  from a b c show ?thesis by blast
qed

theorem ptsd_no_trauma_exit_witness:
  "get_response no_classifier no_counsellor ''alice'' ''No'' (alice_world (questionnaire_session ''PTSD'' 4 0))
     = ((alice_world (questionnaire_session ''PTSD'' 15 0))
          \<lparr>db := alice_db\<lparr>users := [''alice'' \<mapsto> alice_row\<lparr>u_severity := ''Minimal''\<rparr>]\<rparr>\<rparr>, ptsd_no_trauma)
   \<and> snd (run_get no_classifier no_counsellor ''alice'' [''yes'', ''no'']
        ((alice_world (questionnaire_session ''PTSD'' 15 0))
          \<lparr>db := alice_db\<lparr>users := [''alice'' \<mapsto> alice_row\<lparr>u_severity := ''Minimal''\<rparr>]\<rparr>\<rparr>))
     = [thank_you, thank_you]
   \<and> is_completed (diagnosis_chat no_classifier ''alice'' \<lparr>req_user_input = ''N'', req_step = 4\<rparr>
        (chat_session ''PTSD'' 4 0) alice_db)"
proof -
  let ?s = "questionnaire_session ''PTSD'' 4 0"
  let ?w = "alice_world ?s"
  let ?w' = "(alice_world (questionnaire_session ''PTSD'' 15 0))
          \<lparr>db := alice_db\<lparr>users := [''alice'' \<mapsto> alice_row\<lparr>u_severity := ''Minimal''\<rparr>]\<rparr>\<rparr>"
  let ?ds = "chat_session ''PTSD'' 4 0"
  let ?rq = "\<lparr>req_user_input = ''N'', req_step = 4\<rparr>"
  have h1: "user_sessions ?w ''alice'' = Some ?s" by (simp add: alice_world_def)
  have h2: "InDiagnosis ?s" "\<not> InCounselor ?s" "predicted_class ?s = Some ''PTSD''" "total ?s = 4"
    by (simp_all add: questionnaire_session_def)
  have h3: "lower ''No'' \<in> set no_tokens" by (simp add: lower_no no_tokens_def)
  have h4: "online (db ?w)" "users (db ?w) ''alice'' = Some alice_row"
    by (simp_all add: alice_world_def alice_db_def)
  have h5: "disorder ?ds = Some ''PTSD''" "step ?ds = 4" "req_step ?rq \<ge> 4"
    "lower (req_user_input ?rq) \<in> set [''no'', ''n'']"
    by (simp_all add: chat_session_def lower_no)
  have h6: "?w' = ?w\<lparr>user_sessions := (user_sessions ?w)(''alice'' \<mapsto> ?s\<lparr>total := 15\<rparr>),
                db := (db ?w)\<lparr>users := (users (db ?w))(''alice'' \<mapsto> alice_row\<lparr>u_severity := ''Minimal''\<rparr>)\<rparr>\<rparr>"
    by (simp add: alice_world_def questionnaire_session_def alice_db_def)
  have h7: "db ?w = alice_db" by (simp add: alice_world_def)
  note r = ptsd_no_trauma_exit[OF h1 h2 h3 h4 h5 h6, of no_classifier no_counsellor "[''yes'', ''no'']"]
  from r have a: "get_response no_classifier no_counsellor ''alice'' ''No'' ?w = (?w', ptsd_no_trauma)"
    by blast
  from r have "run_get no_classifier no_counsellor ''alice'' [''yes'', ''no''] ?w'
                 = (?w', replicate (length [''yes'', ''no'']) thank_you)"
    by blast
  then have b: "snd (run_get no_classifier no_counsellor ''alice'' [''yes'', ''no''] ?w')
                 = [thank_you, thank_you]"
    by (simp del: run_get.simps)
  from r have "do_result (diagnosis_chat no_classifier ''alice'' ?rq ?ds (db ?w)) =
       Inr (Some \<lparr>message = ''PTSD requires a traumatic event. Consider consulting a counselor.'',
                  r_disorder = Some ''PTSD'', r_severity = Some ''Minimal'', completed = True\<rparr>)"
    by simp
  then have c: "is_completed (diagnosis_chat no_classifier ''alice'' ?rq ?ds alice_db)"
    unfolding h7 by (simp add: is_completed_def)
  from a b c show ?thesis by blast
qed

subsection \<open>The questionnaire steps do not depend on the services\<close>

lemma finish_parts:
  "fst (finish u s d t) = s"
  "snd (snd (finish u s d t)) = (if online d then Inr (snd (t (userScore s))) else Inl SqliteError)"
  by (simp_all add: finish_def update_severity_def split: option.splits)

lemma score_and_next_parts:
  "fst (score_and_next s msg d q) =
     (case py_int msg of Inl e \<Rightarrow> s | Inr n \<Rightarrow> s\<lparr>userScore := userScore s + n, total := total s + 1\<rparr>)"
  "snd (snd (score_and_next s msg d q)) = (case py_int msg of Inl e \<Rightarrow> Inl e | Inr n \<Rightarrow> Inr q)"
  by (simp_all add: score_and_next_def split: sum.splits)

lemma score_and_finish_parts:
  "fst (score_and_finish u s msg d t) =
     (case py_int msg of Inl e \<Rightarrow> s | Inr n \<Rightarrow> s\<lparr>userScore := userScore s + n, total := - 1\<rparr>)"
  "snd (snd (score_and_finish u s msg d t)) =
     (case py_int msg of Inl e \<Rightarrow> Inl e
      | Inr n \<Rightarrow> if online d then Inr (snd (t (userScore s + n))) else Inl SqliteError)"
  by (simp_all add: score_and_finish_def finish_parts split: sum.splits)








lemma ptsd_first_parts:
  "fst (case update_severity d u v of Inl e \<Rightarrow> (s', d, Inl e) | Inr d' \<Rightarrow> (s', d', Inr r)) = s'"
  "snd (snd (case update_severity d u v of Inl e \<Rightarrow> (s', d, Inl e) | Inr d' \<Rightarrow> (s', d', Inr r)))
     = (if online d then Inr r else Inl SqliteError)"
  by (simp_all add: update_severity_def split: option.splits)









subsection \<open>After the end of a run\<close>

text \<open>
  C9. In the /diagnosis/chat handler the end of a run is not absorbing. The six answers
  of the Anxiety run above leave the session at step -1 with score 15 and the severity
  written. One more answer 3, sent with step 10, is scored: the session goes to step 0
  with score 18, and the reply is a question of the list, read with the negative index
  -5. Nothing guards the step -1 in \<open>handle_questionnaire_response\<close>. In the /get
  handler a finished session (counter -1) answers every message with the closing reply
  and changes nothing, which is lemma \<open>run_get_closed\<close>.
\<close>

theorem chat_terminal_not_absorbing:
  "do_session (last (run_chat no_classifier ''alice'' (chat_answers [''3'', ''3'', ''3'', ''3'', ''3'', ''3''])
       (chat_session ''Anxiety'' 4 0) alice_db)) = chat_session ''Anxiety'' (- 1) 15
   \<and> diagnosis_chat no_classifier ''alice'' \<lparr>req_user_input = ''3'', req_step = 10\<rparr>
         (chat_session ''Anxiety'' (- 1) 15) (alice_db\<lparr>users := [''alice'' \<mapsto> alice_row\<lparr>u_severity := ''Severe''\<rparr>]\<rparr>)
       = \<lparr>do_session = chat_session ''Anxiety'' 0 18,
          do_db = alice_db\<lparr>users := [''alice'' \<mapsto> alice_row\<lparr>u_severity := ''Severe''\<rparr>]\<rparr>,
          do_calls = [],
          do_result = Inr (Some \<lparr>message = ''Worrying too much about different things'',
                                 r_disorder = None, r_severity = None, completed = False\<rparr>)\<rparr>"
proof -
  have reqs: "chat_answers [''3'', ''3'', ''3'', ''3'', ''3'', ''3'']
     = [\<lparr>req_user_input = ''3'', req_step = 4\<rparr>, \<lparr>req_user_input = ''3'', req_step = 5\<rparr>,
        \<lparr>req_user_input = ''3'', req_step = 6\<rparr>, \<lparr>req_user_input = ''3'', req_step = 7\<rparr>,
        \<lparr>req_user_input = ''3'', req_step = 8\<rparr>, \<lparr>req_user_input = ''3'', req_step = 9\<rparr>]"
    by (simp add: chat_answers_def)
  have final: "do_session (diagnosis_chat no_classifier ''alice'' \<lparr>req_user_input = ''3'', req_step = 9\<rparr>
      (chat_session ''Anxiety'' 9 15) alice_db) = chat_session ''Anxiety'' (- 1) 15"
    by (simp add: diagnosis_chat_def diagnosis_chat_body_def handle_questionnaire_response_def
        chat_session_def py_int_digit anxiety_questions_def update_severity_def alice_db_def Let_def)
  have a: "do_session (last (run_chat no_classifier ''alice'' (chat_answers [''3'', ''3'', ''3'', ''3'', ''3'', ''3''])
       (chat_session ''Anxiety'' 4 0) alice_db)) = chat_session ''Anxiety'' (- 1) 15"
    unfolding reqs by (simp add: chat_anxiety_next py_int_digit Let_def final)
  have b: "diagnosis_chat no_classifier ''alice'' \<lparr>req_user_input = ''3'', req_step = 10\<rparr>
         (chat_session ''Anxiety'' (- 1) 15) (alice_db\<lparr>users := [''alice'' \<mapsto> alice_row\<lparr>u_severity := ''Severe''\<rparr>]\<rparr>)
       = \<lparr>do_session = chat_session ''Anxiety'' 0 18,
          do_db = alice_db\<lparr>users := [''alice'' \<mapsto> alice_row\<lparr>u_severity := ''Severe''\<rparr>]\<rparr>,
          do_calls = [],
          do_result = Inr (Some \<lparr>message = ''Worrying too much about different things'',
                                 r_disorder = None, r_severity = None, completed = False\<rparr>)\<rparr>"
    by (simp add: diagnosis_chat_def diagnosis_chat_body_def handle_questionnaire_response_def
        chat_session_def py_int_digit anxiety_questions_def ask_next_def py_index_def Let_def)
  from a b show ?thesis by blast
qed

subsection \<open>Exceptions end at the boundary of the chat handlers\<close>










subsection \<open>The history column after a counselling turn\<close>

lemma appended_history_prefix: "prefix old (appended_history old entry)"
  by (simp add: appended_history_def)

lemma counsel_chat_appends:
  assumes "online d" "users d u = Some row"
    and "L (creq_user_input rq) (counsel_session_id u rq) st = (st', Inr a)"
  shows "counsel_chat L u rq d st =
           \<lparr>co_db = d\<lparr>users := (users d)(u \<mapsto> row\<lparr>u_history :=
                       Some (appended_history (stored_history row) (exchange_entry (creq_user_input rq) a))\<rparr>)\<rparr>,
            co_store = st', co_result = Inr \<lparr>c_message = a\<rparr>\<rparr>"
  using assms
  by (simp add: counsel_chat_def counsel_chat_body_def select_history_def update_history_def
      stored_history_def exchange_entry_def appended_history_def Let_def split: option.splits)

lemma get_counsel_writes:
  assumes "online d" "users d u = Some row" "\<not> InDiagnosis s" "InCounselor s"
    and "L msg (''counsel_'' @ u) st = (st', Inr a)"
  shows "get_response_body P L u msg s d st =
           \<lparr>o_session = s,
            o_db = d\<lparr>users := (users d)(u \<mapsto> row\<lparr>u_history :=
                      Some (case st' (''counsel_'' @ u) of
                              Some messages \<Rightarrow> join '' | '' messages
                            | None \<Rightarrow> appended_history (stored_history row) (exchange_entry msg a))\<rparr>)\<rparr>,
            o_store = st', o_calls = [], o_result = Inr a\<rparr>"
  using assms
  by (simp add: get_response_body_def counseling_workflow_def select_history_def update_history_def
      stored_history_def exchange_entry_def appended_history_def Let_def split: option.splits)

text \<open>
  C7, as the code has it. For a user with a row, the database answering and the chain
  answering: a turn of /counsel/chat writes the history it read with the entry
  "User: input | AI: answer" put after it, joined by " | " when the history was not
  empty, so the history before the turn is a prefix of the history after it. A
  counselling turn of /get overwrites the history with the messages that the store
  holds for the session counsel_username after the chain answered, joined by " | ";
  only when the store does not hold the session is the entry put after the history
  read, as in /counsel/chat. In both handlers no other row and no other column is
  changed.
\<close>

theorem counseling_history_written:
  assumes "online d" "users d u = Some row"
  shows "(L (creq_user_input rq) (counsel_session_id u rq) st = (st', Inr a) \<longrightarrow>
            co_db (counsel_chat L u rq d st) =
              d\<lparr>users := (users d)(u \<mapsto> row\<lparr>u_history :=
                   Some (appended_history (stored_history row) (exchange_entry (creq_user_input rq) a))\<rparr>)\<rparr>
            \<and> prefix (stored_history row)
                 (appended_history (stored_history row) (exchange_entry (creq_user_input rq) a)))
       \<and> (\<not> InDiagnosis s \<and> InCounselor s \<and> L msg (''counsel_'' @ u) st = (st', Inr a) \<longrightarrow>
            o_db (get_response_body P L u msg s d st) =
              d\<lparr>users := (users d)(u \<mapsto> row\<lparr>u_history :=
                   Some (case st' (''counsel_'' @ u) of
                           Some messages \<Rightarrow> join '' | '' messages
                         | None \<Rightarrow> appended_history (stored_history row) (exchange_entry msg a))\<rparr>)\<rparr>)"
proof (intro conjI impI)
  assume "L (creq_user_input rq) (counsel_session_id u rq) st = (st', Inr a)"
  from counsel_chat_appends[where L=L and rq=rq and st=st, OF assms this]
  show "co_db (counsel_chat L u rq d st) =
              d\<lparr>users := (users d)(u \<mapsto> row\<lparr>u_history :=
                   Some (appended_history (stored_history row) (exchange_entry (creq_user_input rq) a))\<rparr>)\<rparr>"
    by simp
next
  show "prefix (stored_history row)
          (appended_history (stored_history row) (exchange_entry (creq_user_input rq) a))"
    by (rule appended_history_prefix)
next
  assume "\<not> InDiagnosis s \<and> InCounselor s \<and> L msg (''counsel_'' @ u) st = (st', Inr a)"
  then have "\<not> InDiagnosis s" "InCounselor s" "L msg (''counsel_'' @ u) st = (st', Inr a)"
    by simp_all
  from get_counsel_writes[where L=L and msg=msg and st=st and P=P, OF assms this]
  show "o_db (get_response_body P L u msg s d st) =
              d\<lparr>users := (users d)(u \<mapsto> row\<lparr>u_history :=
                   Some (case st' (''counsel_'' @ u) of
                           Some messages \<Rightarrow> join '' | '' messages
                         | None \<Rightarrow> appended_history (stored_history row) (exchange_entry msg a))\<rparr>)\<rparr>"
    by simp
qed

theorem counseling_history_written_witness:
  "co_db (counsel_chat (recording_counsellor (\<lambda>m. ''I see'')) ''alice''
       \<lparr>creq_user_input = ''hello'', creq_session_id = ''default''\<rparr> alice_db Map.empty)
     = alice_db\<lparr>users := [''alice'' \<mapsto>
         alice_row\<lparr>u_history := Some ''User: a | AI: b | User: hello | AI: I see''\<rparr>]\<rparr>
   \<and> o_db (get_response_body no_classifier (recording_counsellor (\<lambda>m. ''I see'')) ''alice'' ''hello''
       counsel_page_session alice_db [''counsel_alice'' \<mapsto> [''hi'', ''I see'']])
     = alice_db\<lparr>users := [''alice'' \<mapsto>
         alice_row\<lparr>u_history := Some ''hi | I see | hello | I see''\<rparr>]\<rparr>
   \<and> o_db (get_response_body no_classifier (\<lambda>m sid st. (st, Inr ''I see'')) ''alice'' ''hello''
       counsel_page_session alice_db Map.empty)
     = alice_db\<lparr>users := [''alice'' \<mapsto>
         alice_row\<lparr>u_history := Some ''User: a | AI: b | User: hello | AI: I see''\<rparr>]\<rparr>"
proof -
  let ?L = "recording_counsellor (\<lambda>m. ''I see'')"
  let ?K = "\<lambda>(m::string) (sid::string) (st::store). (st, Inr ''I see'' :: exn + string)"
  let ?rq = "\<lparr>creq_user_input = ''hello'', creq_session_id = ''default''\<rparr>"
  let ?st = "[''counsel_alice'' \<mapsto> [''hi'', ''I see'']] :: store"
  have h: "online alice_db" "users alice_db ''alice'' = Some alice_row"
    by (simp_all add: alice_db_def)
  have old: "stored_history alice_row = ''User: a | AI: b''"
    by (simp add: stored_history_def alice_row_def)
  have c1: "?L (creq_user_input ?rq) (counsel_session_id ''alice'' ?rq) Map.empty
              = ([''default'' \<mapsto> [''hello'', ''I see'']], Inr ''I see'')"
    by (simp add: recording_counsellor_def counsel_session_id_def)
  have c2: "\<not> InDiagnosis counsel_page_session \<and> InCounselor counsel_page_session
      \<and> ?L ''hello'' (''counsel_'' @ ''alice'') ?st
          = ([''counsel_alice'' \<mapsto> [''hi'', ''I see'', ''hello'', ''I see'']], Inr ''I see'')"
    by (simp add: recording_counsellor_def counsel_page_session_def)
  have c3: "\<not> InDiagnosis counsel_page_session \<and> InCounselor counsel_page_session
      \<and> ?K ''hello'' (''counsel_'' @ ''alice'') Map.empty = (Map.empty, Inr ''I see'')"
    by (simp add: counsel_page_session_def)
  from counseling_history_written[OF h, of ?L ?rq Map.empty _ "''I see''"] c1
  have a: "co_db (counsel_chat ?L ''alice'' ?rq alice_db Map.empty)
     = alice_db\<lparr>users := [''alice'' \<mapsto>
         alice_row\<lparr>u_history := Some ''User: a | AI: b | User: hello | AI: I see''\<rparr>]\<rparr>"
    by (simp add: old appended_history_def exchange_entry_def alice_db_def)
  from counseling_history_written[OF h, of ?L _ ?st _ "''I see''" counsel_page_session "''hello''" no_classifier] c2
  have b: "o_db (get_response_body no_classifier ?L ''alice'' ''hello'' counsel_page_session alice_db ?st)
     = alice_db\<lparr>users := [''alice'' \<mapsto>
         alice_row\<lparr>u_history := Some ''hi | I see | hello | I see''\<rparr>]\<rparr>"
    by (simp add: alice_db_def)
  from counseling_history_written[OF h, of ?K _ Map.empty Map.empty "''I see''" counsel_page_session "''hello''" no_classifier] c3
  have c: "o_db (get_response_body no_classifier ?K ''alice'' ''hello'' counsel_page_session alice_db Map.empty)
     = alice_db\<lparr>users := [''alice'' \<mapsto>
         alice_row\<lparr>u_history := Some ''User: a | AI: b | User: hello | AI: I see''\<rparr>]\<rparr>"
    by (simp add: old appended_history_def exchange_entry_def alice_db_def)
  from a b c show ?thesis by blast
qed

text \<open>
  The claim as written fails in /get. A user whose history column holds the exchange
  of an earlier run of the server, "hello | I see", takes a counselling turn "bye" on
  a fresh chat store, with a chain that records the input and its answer in the
  store as the message-history wrapper does. The column then holds "bye | I see":
  the earlier content is gone, and the entry has no "User:" and "AI:" labels.
\<close>

theorem counseling_history_counterexample:
  "users (o_db (get_response_body no_classifier (recording_counsellor (\<lambda>m. ''I see'')) ''alice'' ''bye''
       counsel_page_session
       (alice_db\<lparr>users := [''alice'' \<mapsto> alice_row\<lparr>u_history := Some ''hello | I see''\<rparr>]\<rparr>)
       Map.empty)) ''alice''
     = Some (alice_row\<lparr>u_history := Some ''bye | I see''\<rparr>)
   \<and> \<not> prefix ''hello | I see'' ''bye | I see''"
  by (simp add: get_response_body_def counseling_workflow_def recording_counsellor_def
      counsel_page_session_def update_history_def alice_db_def Let_def)

subsection \<open>The narrative and the call of the classifier\<close>

lemma get_narrative_first:
  assumes "user_sessions w u = Some s" "InDiagnosis s" "\<not> InCounselor s" "total s = 1"
  shows "get_response P L u m w =
           (w\<lparr>user_sessions := (user_sessions w)(u \<mapsto> s\<lparr>total := 2, userText_diagnosis := userText_diagnosis s @ m\<rparr>)\<rparr>,
            ''Can you share any recent events or experiences that might have triggered these feelings or symptoms?'')"
  using assms
  by (simp add: get_response_def get_response_body_def diagnosis_workflow_def reply_of_def Let_def)

lemma get_narrative_second:
  assumes "user_sessions w u = Some s" "InDiagnosis s" "\<not> InCounselor s" "total s = 2"
  shows "get_response P L u m w =
           (w\<lparr>user_sessions := (user_sessions w)(u \<mapsto> s\<lparr>total := 3, userText_diagnosis := userText_diagnosis s @ '' '' @ m\<rparr>)\<rparr>,
            ''Have you experienced any significant traumas in the past, or do you have any habits or behaviors that you think might be affecting your mental health?'')"
  using assms
  by (simp add: get_response_def get_response_body_def diagnosis_workflow_def reply_of_def Let_def)

lemma get_narrative_third:
  assumes "user_sessions w u = Some s" "InDiagnosis s" "\<not> InCounselor s" "total s = 3"
  shows "predict_log (fst (get_response P L u m w)) = predict_log w @ [userText_diagnosis s @ '' '' @ m]"
    and "\<exists>s'. user_sessions (fst (get_response P L u m w)) u = Some s' \<and> InDiagnosis s' \<and> \<not> InCounselor s' \<and> total s' = 4"
  using assms
  by (auto simp: get_response_def get_response_body_def diagnosis_workflow_def classify_step_def
      Let_def split: sum.splits option.splits)

lemma get_later_no_call:
  assumes "user_sessions w u = Some s" "InDiagnosis s" "\<not> InCounselor s" "total s \<ge> 4 \<or> total s < 1"
  shows "predict_log (fst (get_response P L u m w)) = predict_log w"
  using assms
  by (auto simp: get_response_def get_response_body_def diagnosis_workflow_def Let_def split_beta)

lemma anxiety_keeps_past:
  assumes "past_narrative s"
  shows "past_narrative (fst (anxiety_questionnaire u m s d))"
  using assms
  by (cases "py_int m"; simp add: past_narrative_def anxiety_questionnaire_def score_and_next_parts
      score_and_finish_parts)

lemma depression_keeps_past:
  assumes "past_narrative s"
  shows "past_narrative (fst (depression_questionnaire u m s d))"
  using assms
  by (cases "py_int m"; simp add: past_narrative_def depression_questionnaire_def score_and_next_parts
      score_and_finish_parts)

lemma addiction_keeps_past:
  assumes "past_narrative s"
  shows "past_narrative (fst (addiction_questionnaire u m s d))"
  using assms
  by (cases "py_int m"; simp add: past_narrative_def addiction_questionnaire_def score_and_next_parts
      score_and_finish_parts)

lemma ptsd_keeps_past:
  assumes "past_narrative s"
  shows "past_narrative (fst (ptsd_questionnaire u m s d))"
  using assms
  by (simp add: past_narrative_def ptsd_questionnaire_def ptsd_item_def ptsd_first_parts finish_parts)

lemma get_keeps_past:
  assumes "user_sessions w u = Some s" "past_narrative s"
  shows "\<exists>s'. user_sessions (fst (get_response P L u m w)) u = Some s' \<and> past_narrative s'"
    and "predict_log (fst (get_response P L u m w)) = predict_log w"
proof -
  from assms(2) have flags: "InDiagnosis s" "\<not> InCounselor s" by (simp_all add: past_narrative_def)
  have "past_narrative (fst (fst (diagnosis_workflow P u m s (db w))))"
    using assms(2) anxiety_keeps_past[OF assms(2)] depression_keeps_past[OF assms(2)]
      addiction_keeps_past[OF assms(2)] ptsd_keeps_past[OF assms(2)]
    by (auto simp: diagnosis_workflow_def past_narrative_def)
  then show "\<exists>s'. user_sessions (fst (get_response P L u m w)) u = Some s' \<and> past_narrative s'"
    using assms(1) flags by (simp add: get_response_def get_response_body_def Let_def split_beta)
  from assms(2) have "total s \<ge> 4 \<or> total s < 1" by (auto simp: past_narrative_def)
  from get_later_no_call[OF assms(1) flags this]
  show "predict_log (fst (get_response P L u m w)) = predict_log w" .
qed

lemma run_get_past:
  assumes "user_sessions w u = Some s" "past_narrative s"
  shows "predict_log (fst (run_get P L u ms w)) = predict_log w"
  using assms
proof (induction ms arbitrary: w s)
  case Nil
  then show ?case by simp
next
  case (Cons m ms)
  from get_keeps_past(1)[OF Cons.prems, of P L m]
  obtain s' where s': "user_sessions (fst (get_response P L u m w)) u = Some s'" "past_narrative s'"
    by blast
  have "predict_log (fst (run_get P L u (m # ms) w))
          = predict_log (fst (run_get P L u ms (fst (get_response P L u m w))))"
    by (simp add: split_beta)
  also have "\<dots> = predict_log (fst (get_response P L u m w))"
    using Cons.IH[OF s'] .
  also have "\<dots> = predict_log w"
    using get_keeps_past(2)[OF Cons.prems] .
  finally show ?case .
qed

lemma get_classifier_called_once:
  assumes "user_sessions w u = Some s" "InDiagnosis s" "\<not> InCounselor s" "total s = 1"
  shows "predict_log (fst (run_get P L u (m1 # m2 # m3 # ms) w))
           = predict_log w @ [userText_diagnosis s @ m1 @ '' '' @ m2 @ '' '' @ m3]"
proof -
  let ?s1 = "s\<lparr>total := 2, userText_diagnosis := userText_diagnosis s @ m1\<rparr>"
  let ?w1 = "w\<lparr>user_sessions := (user_sessions w)(u \<mapsto> ?s1)\<rparr>"
  let ?s2 = "?s1\<lparr>total := 3, userText_diagnosis := userText_diagnosis ?s1 @ '' '' @ m2\<rparr>"
  let ?w2 = "?w1\<lparr>user_sessions := (user_sessions ?w1)(u \<mapsto> ?s2)\<rparr>"
  let ?w3 = "fst (get_response P L u m3 ?w2)"
  have g1: "get_response P L u m1 w = (?w1, ''Can you share any recent events or experiences that might have triggered these feelings or symptoms?'')"
    using assms by (rule get_narrative_first)
  have g2: "fst (get_response P L u m2 ?w1) = ?w2"
    using get_narrative_second[of ?w1 u ?s1 P L m2] assms(2,3) by simp
  have h3: "user_sessions ?w2 u = Some ?s2" "InDiagnosis ?s2" "\<not> InCounselor ?s2" "total ?s2 = 3"
    using assms(2,3) by simp_all
  from get_narrative_third(2)[OF h3, of P L m3]
  obtain s3 where s3: "user_sessions ?w3 u = Some s3" "past_narrative s3"
    by (auto simp: past_narrative_def)
  have "fst (run_get P L u (m1 # m2 # m3 # ms) w) = fst (run_get P L u ms ?w3)"
    by (simp add: split_beta g1 g2)
  then have "predict_log (fst (run_get P L u (m1 # m2 # m3 # ms) w)) = predict_log ?w3"
    using run_get_past[OF s3, of P L ms] by simp
  also have "\<dots> = predict_log ?w2 @ [userText_diagnosis ?s2 @ '' '' @ m3]"
    using get_narrative_third(1)[OF h3] .
  finally show ?thesis by simp
qed

text \<open>
  C5. In the /get handler the classifier is called once in a run, on the third message,
  but not on the three messages joined by single spaces: the page /diagnosis starts the
  text of the session with a space, so after the messages a, b and c the classifier is
  given " a b c". The /diagnosis/chat handler, which starts from the empty text, gives
  it "a b c".
\<close>

theorem get_classifier_argument_leading_space:
  "predict_log (fst (run_get (fixed_classifier ''Anxiety'') no_counsellor ''alice'' [''a'', ''b'', ''c'', ''2'']
       (diagnosis_page ''alice'' (alice_world new_session)))) = ['' a b c'']
   \<and> '' a b c'' \<noteq> ''a b c''
   \<and> concat (map do_calls (run_chat (fixed_classifier ''Anxiety'') ''alice''
         [\<lparr>req_user_input = ''a'', req_step = 1\<rparr>, \<lparr>req_user_input = ''b'', req_step = 2\<rparr>,
          \<lparr>req_user_input = ''c'', req_step = 3\<rparr>] new_diag_session alice_db)) = [''a b c'']"
proof -
  let ?w = "diagnosis_page ''alice'' (alice_world new_session)"
  have h: "user_sessions ?w ''alice'' = Some diagnosis_page_session"
    "InDiagnosis diagnosis_page_session" "\<not> InCounselor diagnosis_page_session"
    "total diagnosis_page_session = 1"
    by (simp_all add: diagnosis_page_def diagnosis_page_session_def)
  have log: "predict_log ?w = []" by (simp add: diagnosis_page_def alice_world_def)
  from get_classifier_called_once[OF h, of "fixed_classifier ''Anxiety''" no_counsellor "''a''" "''b''" "''c''" "[''2'']"]
  have a: "predict_log (fst (run_get (fixed_classifier ''Anxiety'') no_counsellor ''alice'' [''a'', ''b'', ''c'', ''2''] ?w))
             = ['' a b c'']"
    unfolding log by (simp add: diagnosis_page_session_def)
  have b: "concat (map do_calls (run_chat (fixed_classifier ''Anxiety'') ''alice''
         [\<lparr>req_user_input = ''a'', req_step = 1\<rparr>, \<lparr>req_user_input = ''b'', req_step = 2\<rparr>,
          \<lparr>req_user_input = ''c'', req_step = 3\<rparr>] new_diag_session alice_db)) = [''a b c'']"
    by (simp add: diagnosis_chat_def diagnosis_chat_body_def new_diag_session_def fixed_classifier_def
        update_disorder_def alice_db_def Let_def)
  from a b show ?thesis by simp
qed

subsection \<open>Requests without a session\<close>



lemma not_an_object_raises:
  assumes "c \<noteq> []" "loads c = Some v" "\<forall>kvs. v \<noteq> JObj kvs"
  shows "chat_username loads (Some c) = Inl AttributeError"
  using assms by (cases v) (simp_all add: chat_username_def get_current_user_def)

lemma example_texts:
  "example_loads ''[]'' = Some (JArr [])" "example_loads ''{}'' = Some (JObj [])"
  "example_loads ''not json'' = None"
  by (simp_all add: example_loads_def)





end
